theory Spec2Isabelle
  imports Main "HOL-Library.Word" "HOL-Library.Sublist"
begin

section \<open>Share-link service (file-sharing.ts)\<close>

subsection \<open>Data model\<close>

text \<open>
  Timestamps are epoch milliseconds: the ISO strings the source stores are produced by
  \<^verbatim>\<open>toISOString\<close> and read back by \<^verbatim>\<open>new Date\<close>, which keep the millisecond value.
  The field \<^verbatim>\<open>id\<close> of the source is \<open>link_id\<close> here.
\<close>

record ShareLink =
  link_id :: string
  file_path :: string
  file_name :: string
  file_size :: int
  token :: string
  created_by :: string
  created_at :: int
  expires_at :: "int option"
  password_hash :: "string option"
  max_downloads :: "int option"
  download_count :: int
  is_active :: bool
  last_accessed_at :: "int option"

record ShareLinkOptions =
  filePath :: string
  fileName :: string
  fileSize :: int
  createdBy :: string
  expiresIn :: "int option"
  password :: "string option"
  maxDownloads :: "int option"

datatype js_error = Error string | RangeError string | SyntaxError string

text \<open>
  The \<^verbatim>\<open>shared_links\<close> table behind the Supabase client: its rows, and whether the
  backend answers reads and accepts writes while a call runs (a query that cannot be
  served comes back with \<^verbatim>\<open>error\<close> set and \<^verbatim>\<open>data\<close> null).
\<close>

record shared_links =
  rows :: "ShareLink list"
  read_ok :: bool
  write_ok :: bool

text \<open>
  The two variables of \<^verbatim>\<open>process.env\<close> that \<open>getSupabaseAdminClient\<close> reads; a variable
  that is not set is \<open>None\<close>.
\<close>

record environment =
  VITE_SUPABASE_URL :: "string option"
  SUPABASE_SERVICE_KEY :: "string option"

subsection \<open>JavaScript truthiness of the optional fields\<close>

fun truthy_string :: "string option \<Rightarrow> bool" where
  "truthy_string None = False"
| "truthy_string (Some s) = (s \<noteq> [])"

fun truthy_number :: "int option \<Rightarrow> bool" where
  "truthy_number None = False"
| "truthy_number (Some n) = (n \<noteq> 0)"

subsection \<open>The admin client\<close>

text \<open>
  \<open>getSupabaseAdminClient\<close> throws when either variable is missing or empty; the client
  it returns otherwise reaches the table, which the operations take as \<open>db\<close>.
\<close>

definition getSupabaseAdminClient :: "environment \<Rightarrow> js_error + unit" where
  "getSupabaseAdminClient env =
     (if \<not> truthy_string (VITE_SUPABASE_URL env) \<or> \<not> truthy_string (SUPABASE_SERVICE_KEY env)
      then Inl (Error ''Supabase admin credentials not configured'')
      else Inr ())"

subsection \<open>Query primitives\<close>

text \<open>\<^verbatim>\<open>.single()\<close>: the row when exactly one row matches, otherwise an error and no data.\<close>

fun single :: "'a list \<Rightarrow> 'a option" where
  "single [x] = Some x"
| "single _ = None"

definition select_by_token :: "shared_links \<Rightarrow> string \<Rightarrow> ShareLink option" where
  "select_by_token db tok =
     (if read_ok db then single (filter (\<lambda>r. token r = tok) (rows db)) else None)"

subsection \<open>Token generation\<close>

text \<open>
  \<^verbatim>\<open>crypto.randomBytes(n)\<close> reads \<open>n\<close> bytes from an entropy source, given here as the
  list of bytes still to come. A source that runs dry stands for a call that never returns.
\<close>

definition randomBytes :: "nat \<Rightarrow> 8 word list \<Rightarrow> (8 word list \<times> 8 word list) option" where
  "randomBytes n src = (if length src < n then None else Some (take n src, drop n src))"

definition hex_digit :: "nat \<Rightarrow> char" where
  "hex_digit d = ''0123456789abcdef'' ! (d mod 16)"

definition hex_byte :: "8 word \<Rightarrow> string" where
  "hex_byte b = [hex_digit (unat b div 16), hex_digit (unat b mod 16)]"

definition toString_hex :: "8 word list \<Rightarrow> string" where
  "toString_hex bs = concat (map hex_byte bs)"

definition generateShareToken :: "8 word list \<Rightarrow> (string \<times> 8 word list) option" where
  "generateShareToken src =
     (case randomBytes 16 src of
        None \<Rightarrow> None
      | Some (bs, src') \<Rightarrow> Some (toString_hex bs, src'))"

subsection \<open>createShareLink\<close>

text \<open>
  The \<^verbatim>\<open>while (!isUnique)\<close> loop: the candidate is kept as soon as the lookup returns no
  data, and replaced by a fresh draw otherwise.
\<close>

function uniqueToken :: "shared_links \<Rightarrow> string \<Rightarrow> 8 word list \<Rightarrow> (string \<times> 8 word list) option" where
  "uniqueToken db tok src =
     (case select_by_token db tok of
        None \<Rightarrow> Some (tok, src)
      | Some existing \<Rightarrow>
          (case generateShareToken src of
             None \<Rightarrow> None
           | Some (tok', src') \<Rightarrow> uniqueToken db tok' src'))"
  by pat_completeness auto
termination
  by (relation "measure (\<lambda>(db, tok, src). length src)")
     (auto simp: generateShareToken_def randomBytes_def split: if_splits)

declare uniqueToken.simps [simp del]

text \<open>
  \<^verbatim>\<open>new Date(t).toISOString()\<close> throws a RangeError when \<open>t\<close> is outside the range of
  valid time values.
\<close>

definition toISOString :: "int \<Rightarrow> js_error + int" where
  "toISOString t =
     (if \<bar>t\<bar> \<le> 8640000000000000 then Inr t else Inl (RangeError ''Invalid time value''))"

text \<open>
  Modelled from the spec: the column defaults of the \<^verbatim>\<open>shared_links\<close> table, whose
  schema is not among the sources. The insert of \<^verbatim>\<open>createShareLink\<close> sets eight columns;
  the store assigns the identifier and the creation timestamp, and a new link starts
  active, with a download count of zero and no last-accessed timestamp.
\<close>

definition insert_row ::
  "string \<Rightarrow> int \<Rightarrow> string \<Rightarrow> ShareLinkOptions \<Rightarrow> int option \<Rightarrow> string option \<Rightarrow> ShareLink" where
  "insert_row new_id now tok options expiresAt passwordHash =
     \<lparr> link_id = new_id,
       file_path = filePath options,
       file_name = fileName options,
       file_size = fileSize options,
       token = tok,
       created_by = createdBy options,
       created_at = now,
       expires_at = expiresAt,
       password_hash = passwordHash,
       max_downloads = (if truthy_number (maxDownloads options) then maxDownloads options else None),
       download_count = 0,
       is_active = True,
       last_accessed_at = None \<rparr>"

text \<open>
  \<open>createShareLink\<close> returns \<open>None\<close> when the token loop does not return, \<open>Inl\<close> for a
  thrown error, and otherwise the inserted row with the table after the insert.
  \<open>hashPassword\<close> stands for \<^verbatim>\<open>bcrypt.hash\<close> with ten salt rounds, \<open>new_id\<close> for the
  identifier the store assigns, \<open>now\<close> for \<^verbatim>\<open>Date.now()\<close>.
\<close>

definition createShareLink ::
  "(string \<Rightarrow> string) \<Rightarrow> environment \<Rightarrow> shared_links \<Rightarrow> string \<Rightarrow> int \<Rightarrow> 8 word list
     \<Rightarrow> ShareLinkOptions \<Rightarrow> (js_error + ShareLink \<times> shared_links) option" where
  "createShareLink hashPassword env db new_id now src options =
     (case getSupabaseAdminClient env of
        Inl e \<Rightarrow> Some (Inl e)
      | Inr supabase \<Rightarrow>
     (case generateShareToken src of
        None \<Rightarrow> None
      | Some (tok0, src0) \<Rightarrow>
     (case uniqueToken db tok0 src0 of
        None \<Rightarrow> None
      | Some (tok, src1) \<Rightarrow>
     (case (if truthy_number (expiresIn options)
            then (case expiresIn options of
                    Some ttl \<Rightarrow> map_sum id Some (toISOString (now + ttl))
                  | None \<Rightarrow> Inr None)
            else Inr None) of
        Inl e \<Rightarrow> Some (Inl e)
      | Inr expiresAt \<Rightarrow>
     (let passwordHash =
            (if truthy_string (password options)
             then map_option hashPassword (password options) else None);
          row = insert_row new_id now tok options expiresAt passwordHash
      in if write_ok db
         then Some (Inr (row, db\<lparr>rows := rows db @ [row]\<rparr>))
         else Some (Inl (Error ''Failed to create share link'')))))))"

subsection \<open>getShareLink and validateShareLink\<close>

text \<open>
  \<open>getShareLink\<close> throws what \<open>getSupabaseAdminClient\<close> throws; a query that comes back
  with an error gives null.
\<close>

definition getShareLink :: "environment \<Rightarrow> shared_links \<Rightarrow> string \<Rightarrow> js_error + ShareLink option" where
  "getShareLink env db tok =
     (case getSupabaseAdminClient env of
        Inl e \<Rightarrow> Inl e
      | Inr supabase \<Rightarrow> Inr (select_by_token db tok))"

datatype validation = Valid ShareLink | Invalid string

definition validateShareLink ::
  "(string \<Rightarrow> string \<Rightarrow> bool) \<Rightarrow> environment \<Rightarrow> shared_links \<Rightarrow> int \<Rightarrow> string \<Rightarrow> string option
     \<Rightarrow> js_error + validation" where
  "validateShareLink verifyPassword env db now tok pw =
     (case getShareLink env db tok of
        Inl e \<Rightarrow> Inl e
      | Inr None \<Rightarrow> Inr (Invalid ''Link not found'')
      | Inr (Some link) \<Rightarrow>
          if \<not> is_active link then Inr (Invalid ''Link has been deactivated'')
          else if (case expires_at link of Some e \<Rightarrow> e < now | None \<Rightarrow> False)
            then Inr (Invalid ''Link has expired'')
          else if (case max_downloads link of
                     Some m \<Rightarrow> download_count link \<ge> m | None \<Rightarrow> False)
            then Inr (Invalid ''Download limit reached'')
          else (case password_hash link of
                  None \<Rightarrow> Inr (Valid link)
                | Some h \<Rightarrow>
                    if h = [] then Inr (Valid link)
                    else (case pw of
                            None \<Rightarrow> Inr (Invalid ''Password required'')
                          | Some p \<Rightarrow>
                              if p = [] then Inr (Invalid ''Password required'')
                              else if \<not> verifyPassword p h then Inr (Invalid ''Invalid password'')
                              else Inr (Valid link))))"

subsection \<open>incrementDownloadCount, deactivateShareLink, deleteShareLink\<close>

text \<open>
  The read is a \<^verbatim>\<open>.single()\<close> select by token; the update then writes the count read plus
  one (\<^verbatim>\<open>|| 0\<close> leaves a number as it is) to every row with that token.
\<close>

definition incrementDownloadCount ::
  "environment \<Rightarrow> shared_links \<Rightarrow> int \<Rightarrow> string \<Rightarrow> js_error + shared_links" where
  "incrementDownloadCount env db now tok =
     (case getSupabaseAdminClient env of
        Inl e \<Rightarrow> Inl e
      | Inr supabase \<Rightarrow>
     (case select_by_token db tok of
        None \<Rightarrow> Inl (Error ''Failed to fetch download count'')
      | Some current \<Rightarrow>
          if \<not> write_ok db then Inl (Error ''Failed to update download count'')
          else Inr (db\<lparr>rows :=
                 map (\<lambda>r. if token r = tok
                           then r\<lparr>download_count := download_count current + 1,
                                  last_accessed_at := Some now\<rparr>
                           else r) (rows db)\<rparr>)))"



subsection \<open>Downloads in sequence\<close>

text \<open>
  The download route (\<^verbatim>\<open>POST /:token/download\<close>) counts each download it serves with
  \<open>incrementDownloadCount\<close>; \<open>downloads\<close> is the store after the downloads served at the
  given times, or the first error thrown.
\<close>

fun downloads :: "environment \<Rightarrow> shared_links \<Rightarrow> string \<Rightarrow> int list \<Rightarrow> js_error + shared_links" where
  "downloads env db tok [] = Inr db"
| "downloads env db tok (t # ts) =
     (case incrementDownloadCount env db t tok of
        Inl e \<Rightarrow> Inl e
      | Inr db' \<Rightarrow> downloads env db' tok ts)"

subsection \<open>Vocabulary for the token properties\<close>

text \<open>
  The tokens an entropy source yields, one per 16 bytes, in the order
  \<open>generateShareToken\<close> would return them; and the fixed format of a token.
\<close>

function draws :: "8 word list \<Rightarrow> string list" where
  "draws src =
     (case generateShareToken src of
        None \<Rightarrow> []
      | Some (t, src') \<Rightarrow> t # draws src')"
  by pat_completeness auto
termination
  by (relation "measure length")
     (auto simp: generateShareToken_def randomBytes_def split: if_splits)

declare draws.simps [simp del]

definition hex_token :: "string \<Rightarrow> bool" where
  "hex_token t = (length t = 32 \<and> set t \<subseteq> set ''0123456789abcdef'')"

subsection \<open>The five checks of validateLink, in the spec's words\<close>

definition link_exists :: "environment \<Rightarrow> shared_links \<Rightarrow> string \<Rightarrow> bool" where
  "link_exists env db tok =
     (case getShareLink env db tok of Inr (Some link) \<Rightarrow> True | _ \<Rightarrow> False)"

definition link_expired :: "int \<Rightarrow> ShareLink \<Rightarrow> bool" where
  "link_expired now link = (case expires_at link of None \<Rightarrow> False | Some e \<Rightarrow> e < now)"

definition limit_reached :: "ShareLink \<Rightarrow> bool" where
  "limit_reached link =
     (case max_downloads link of None \<Rightarrow> False | Some m \<Rightarrow> m \<le> download_count link)"

definition password_missing :: "ShareLink \<Rightarrow> string option \<Rightarrow> bool" where
  "password_missing link pw = (truthy_string (password_hash link) \<and> \<not> truthy_string pw)"

definition password_wrong :: "(string \<Rightarrow> string \<Rightarrow> bool) \<Rightarrow> ShareLink \<Rightarrow> string option \<Rightarrow> bool" where
  "password_wrong verifyPassword link pw =
     (case (password_hash link, pw) of
        (Some h, Some p) \<Rightarrow> h \<noteq> [] \<and> p \<noteq> [] \<and> \<not> verifyPassword p h
      | _ \<Rightarrow> False)"

subsection \<open>Example data\<close>

definition example_link :: ShareLink where
  "example_link =
     \<lparr> link_id = ''7'', file_path = ''/demos/a.wav'', file_name = ''a.wav'', file_size = 10,
       token = ''00112233445566778899aabbccddeeff'', created_by = ''alice'',
       created_at = 1000, expires_at = Some 2000, password_hash = Some ''h4sh'',
       max_downloads = Some 1, download_count = 1, is_active = True,
       last_accessed_at = None \<rparr>"

definition example_db :: "ShareLink list \<Rightarrow> shared_links" where
  "example_db ls = \<lparr> rows = ls, read_ok = True, write_ok = True \<rparr>"

definition example_env :: environment where
  "example_env =
     \<lparr> VITE_SUPABASE_URL = Some ''https://db.example.org'',
       SUPABASE_SERVICE_KEY = Some ''service-key'' \<rparr>"

definition example_verify :: "string \<Rightarrow> string \<Rightarrow> bool" where
  "example_verify p h = (h = ''h4sh'' \<and> p = ''secret'')"

definition example_entropy :: "8 word list" where
  "example_entropy =
     [0x00, 0x11, 0x22, 0x33, 0x44, 0x55, 0x66, 0x77, 0x88, 0x99, 0xaa, 0xbb, 0xcc, 0xdd, 0xee, 0xff,
      0xde, 0xad, 0xbe, 0xef, 0x01, 0x02, 0x03, 0x04, 0x05, 0x06, 0x07, 0x08, 0x09, 0x0a, 0x0b, 0x0c]"

definition example_options :: ShareLinkOptions where
  "example_options =
     \<lparr> filePath = ''/demos/a.wav'', fileName = ''a.wav'', fileSize = 10, createdBy = ''alice'',
       expiresIn = None, password = None, maxDownloads = None \<rparr>"

section \<open>Remote storage paths (Node's posix \<^verbatim>\<open>path\<close> module)\<close>

text \<open>\<^verbatim>\<open>s.split('/')\<close>: the pieces between the slashes, empty pieces included.\<close>

fun split_slash :: "string \<Rightarrow> string list" where
  "split_slash [] = [[]]"
| "split_slash (c # cs) =
     (if c = CHR ''/'' then [] # split_slash cs
      else (case split_slash cs of
              [] \<Rightarrow> [[c]]
            | s # ss \<Rightarrow> (c # s) # ss))"

text \<open>\<^verbatim>\<open>segs.join('/')\<close>.\<close>

fun join_slash :: "string list \<Rightarrow> string" where
  "join_slash [] = []"
| "join_slash [s] = s"
| "join_slash (s # ss) = s @ CHR ''/'' # join_slash ss"

text \<open>
  \<^verbatim>\<open>normalizeString\<close>, segment by segment: empty segments and \<^verbatim>\<open>.\<close> are dropped;
  \<^verbatim>\<open>..\<close> removes the last segment kept unless there is none or it is \<^verbatim>\<open>..\<close> itself, in
  which case it is kept when the path is relative (\<open>allowAboveRoot\<close>) and dropped when it is
  absolute; any other segment is kept.
\<close>

fun normalizeString :: "bool \<Rightarrow> string list \<Rightarrow> string list \<Rightarrow> string list" where
  "normalizeString allowAboveRoot res [] = res"
| "normalizeString allowAboveRoot res (s # ss) =
     (if s = [] \<or> s = ''.'' then normalizeString allowAboveRoot res ss
      else if s = ''..'' then
        (if res \<noteq> [] \<and> last res \<noteq> ''..''
         then normalizeString allowAboveRoot (butlast res) ss
         else if allowAboveRoot then normalizeString allowAboveRoot (res @ [''..'']) ss
         else normalizeString allowAboveRoot res ss)
      else normalizeString allowAboveRoot (res @ [s]) ss)"

definition isAbsolute :: "string \<Rightarrow> bool" where
  "isAbsolute p = (case p of [] \<Rightarrow> False | c # cs \<Rightarrow> c = CHR ''/'')"

definition trailingSeparator :: "string \<Rightarrow> bool" where
  "trailingSeparator p = (p \<noteq> [] \<and> last p = CHR ''/'')"

definition normalize :: "string \<Rightarrow> string" where
  "normalize p =
     (if p = [] then ''.''
      else let q = join_slash (normalizeString (\<not> isAbsolute p) [] (split_slash p))
           in if q = [] then (if isAbsolute p then ''/''
                              else if trailingSeparator p then ''./'' else ''.'')
              else (if isAbsolute p then ''/'' else []) @ q
                   @ (if trailingSeparator p then ''/'' else []))"

text \<open>\<^verbatim>\<open>path.join\<close>: the non-empty arguments joined by slashes, then normalized.\<close>

definition path_join :: "string list \<Rightarrow> string" where
  "path_join args =
     (let parts = filter (\<lambda>a. a \<noteq> []) args
      in if parts = [] then ''.'' else normalize (join_slash parts))"

text \<open>\<open>AdminStorageClient.getFullPath\<close>, the base path being the client's \<open>basePath\<close>.\<close>

definition getFullPath :: "string \<Rightarrow> string \<Rightarrow> string" where
  "getFullPath basePath relativePath =
     (let normalized = normalize relativePath
      in if isAbsolute normalized then path_join [basePath, tl normalized]
         else path_join [basePath, normalized])"

text \<open>
  The path \<open>O2SwitchStorage\<close> hands to the transfer client in \<open>downloadAdminFile\<close>,
  \<open>listAdminFiles\<close>, \<open>deleteAdminFile\<close>, \<open>createAdminDirectory\<close> and \<open>searchAdminFiles\<close>.
\<close>

definition adminFullPath :: "string \<Rightarrow> string \<Rightarrow> string" where
  "adminFullPath adminBasePath relativePath = path_join [adminBasePath, relativePath]"

text \<open>A path is within the base root when it is the root or lies below it.\<close>

definition within_base :: "string \<Rightarrow> string \<Rightarrow> bool" where
  "within_base base p = (p = base \<or> prefix (base @ ''/'') p)"

definition default_base :: string where
  "default_base = ''/home/faji2535/admin-files''"

text \<open>A base root as configured: absolute, in normal form, with no trailing slash.\<close>

definition base_ok :: "string \<Rightarrow> bool" where
  "base_ok base = (isAbsolute base \<and> \<not> trailingSeparator base \<and> normalize base = base)"

section \<open>Search on the remote storage\<close>





text \<open>
  \<^verbatim>\<open>String.prototype.toLowerCase\<close> follows the case mappings of Unicode, a table of the
  JavaScript engine that no file of the repository holds: the search functions take it as
  their parameter \<open>toLowerCase\<close>, and what is proved of them holds for every mapping.
\<close>




record SearchResult =
  name :: string
  size_bytes :: int
  type_flag :: string
  path :: string





subsection \<open>Every entry below a directory, with its path\<close>







text \<open>A path segment that names a file: not empty, not a dot segment, without a slash.\<close>

definition plain_seg :: "string \<Rightarrow> bool" where
  "plain_seg s = (s \<noteq> [] \<and> s \<noteq> ''.'' \<and> s \<noteq> ''..'' \<and> CHR ''/'' \<notin> set s)"



section \<open>Connecting the storage clients\<close>

text \<open>
  \<open>connect\<close> is an async method of a client object shared by all requests. JavaScript
  runs it without interruption from the call to its first \<^verbatim>\<open>await\<close>, and again from the
  moment the awaited handshake settles to the end; calls by other requests come in
  between. The two events are a request calling \<open>connect\<close> and the handshake of the
  transfer client settling, successfully or not. Requests are numbered; \<open>handshakes\<close>
  counts the calls of \<^verbatim>\<open>client.access\<close> (FTPS) or \<^verbatim>\<open>client.connect\<close> (SFTP); \<open>finished\<close>
  records how each call of \<open>connect\<close> ended.
\<close>

datatype event = Connect nat | Handshake_done nat bool

datatype outcome = Returned | Threw

subsection \<open>O2SwitchStorage.connect\<close>

text \<open>
  \<open>connecting\<close> holds the promise of the attempt in flight, named by the request that
  started it; \<open>waiting\<close> are the requests suspended at \<^verbatim>\<open>await this.connecting\<close>, the
  one that started the attempt included.
\<close>

record o2switch =
  connected :: bool
  connecting :: "nat option"
  waiting :: "nat list"
  handshakes :: nat
  finished :: "(nat \<times> outcome) list"

definition o2switch_init :: o2switch where
  "o2switch_init =
     \<lparr> connected = False, connecting = None, waiting = [], handshakes = 0, finished = [] \<rparr>"

fun o2switch_step :: "o2switch \<Rightarrow> event \<Rightarrow> o2switch" where
  "o2switch_step s (Connect c) =
     (if connected s then s\<lparr>finished := finished s @ [(c, Returned)]\<rparr>
      else (case connecting s of
              Some i \<Rightarrow> s\<lparr>waiting := waiting s @ [c]\<rparr>
            | None \<Rightarrow> s\<lparr>connecting := Some c, handshakes := handshakes s + 1,
                          waiting := waiting s @ [c]\<rparr>))"
| "o2switch_step s (Handshake_done i ok) =
     (if connecting s = Some i
      then s\<lparr>connected := ok, connecting := None, waiting := [],
             finished := finished s @ map (\<lambda>c. (c, if ok then Returned else Threw)) (waiting s)\<rparr>
      else s)"

definition o2switch_run :: "o2switch \<Rightarrow> event list \<Rightarrow> o2switch" where
  "o2switch_run = foldl o2switch_step"

subsection \<open>AdminStorageClient.connect\<close>

text \<open>
  The client has no field for an attempt in flight: a call that finds the client not
  connected awaits a handshake of its own. \<open>pending\<close> are the requests whose handshake
  has not settled.
\<close>

record admin_client =
  admin_connected :: bool
  pending :: "nat list"
  admin_handshakes :: nat
  admin_finished :: "(nat \<times> outcome) list"

definition admin_init :: admin_client where
  "admin_init =
     \<lparr> admin_connected = False, pending = [], admin_handshakes = 0, admin_finished = [] \<rparr>"

fun admin_step :: "admin_client \<Rightarrow> event \<Rightarrow> admin_client" where
  "admin_step s (Connect c) =
     (if admin_connected s then s\<lparr>admin_finished := admin_finished s @ [(c, Returned)]\<rparr>
      else s\<lparr>pending := pending s @ [c], admin_handshakes := admin_handshakes s + 1\<rparr>)"
| "admin_step s (Handshake_done c ok) =
     (if c \<in> set (pending s)
      then s\<lparr>admin_connected := ok, pending := remove1 c (pending s),
             admin_finished := admin_finished s @ [(c, if ok then Returned else Threw)]\<rparr>
      else s)"

definition admin_run :: "admin_client \<Rightarrow> event list \<Rightarrow> admin_client" where
  "admin_run = foldl admin_step"

section \<open>Catalogue text store (catalogue-routes.js)\<close>

subsection \<open>Entities\<close>

text \<open>
  The fields the serializers read. Optional fields are \<open>None\<close> when the entity does not
  have them; \<open>social\<close> lists the entries of the object in their order.
\<close>

record Artist =
  artist_id :: int
  artist_name :: string
  act :: string
  artist_description :: "string option"
  style :: "string list"
  social :: "(string \<times> string) list option"
  country :: string
  image_url :: string
  videos :: "string list option"

record Release =
  release_id :: int
  title :: string
  artist :: string
  release_type :: string
  releaseDate :: string
  catalogNumber :: "string option"
  coverUrl :: string
  bandcampUrl :: string
  bandcampId :: string
  release_description :: "string option"
  tracklist :: "string list option"

subsection \<open>Template literals\<close>

text \<open>The decimal digits of a number that is not negative.\<close>

function show_nat :: "int \<Rightarrow> string" where
  "show_nat n =
     (if n < 10 then [char_of (48 + nat n)]
      else show_nat (n div 10) @ [char_of (48 + nat (n mod 10))])"
  by pat_completeness auto
termination
  by (relation "measure nat") auto

declare show_nat.simps [simp del]

text \<open>
  A number in a template literal, for the integers that the number type of JavaScript
  holds exactly, those up to \<open>2\<^sup>5\<^sup>3 - 1\<close> in magnitude: their decimal digits. A number
  beyond them is printed rounded, or with an exponent; that text is not modelled, and
  none is given.
\<close>

definition show_int :: "int \<Rightarrow> string option" where
  "show_int i =
     (if \<bar>i\<bar> > 9007199254740991 then None
      else Some (if i < 0 then CHR ''-'' # show_nat (- i) else show_nat i))"

text \<open>\<^verbatim>\<open>xs.join(sep)\<close>.\<close>

fun join :: "string \<Rightarrow> string list \<Rightarrow> string" where
  "join sep [] = []"
| "join sep [x] = x"
| "join sep (x # xs) = x @ sep @ join sep xs"

text \<open>\<^verbatim>\<open>s.replace(/c/g, rep)\<close> for a one-character pattern: every occurrence is replaced.\<close>

definition replace_all :: "char \<Rightarrow> string \<Rightarrow> string \<Rightarrow> string" where
  "replace_all c rep s = concat (map (\<lambda>x. if x = c then rep else [x]) s)"

definition quoted :: "string \<Rightarrow> string" where
  "quoted s = CHR 0x22 # s @ [CHR 0x22]"

text \<open>\<^verbatim>\<open>x || ''\<close> for an optional string.\<close>

fun or_empty :: "string option \<Rightarrow> string" where
  "or_empty None = []"
| "or_empty (Some s) = s"

subsection \<open>artistToTS and releaseToTS\<close>

definition artistToTS :: "Artist \<Rightarrow> string option" where
  \<open>artistToTS a =
     (case show_int (artist_id a) of
        None \<Rightarrow> None
      | Some id_code \<Rightarrow> Some
     (let social_code =
            join '',\<newline>''
              (map (\<lambda>(k, v). ''      '' @ k @ '': '' @ quoted v)
                 (filter (\<lambda>(k, v). v \<noteq> [])
                    (case social a of None \<Rightarrow> [] | Some es \<Rightarrow> es)));
          videos_code =
            (case videos a of
               None \<Rightarrow> []
             | Some vs \<Rightarrow>
                 if vs = [] then []
                 else ''\<newline>    videos: [\<newline>''
                      @ join '',\<newline>'' (map (\<lambda>v. ''      '' @ quoted v) vs)
                      @ ''\<newline>    ],'')
      in ''  {\<newline>'' @
         ''    id: '' @ id_code @ '',\<newline>'' @
         ''    name: '' @ quoted (artist_name a) @ '',\<newline>'' @
         ''    act: '' @ quoted (act a) @ '',\<newline>'' @
         ''    description: '' @
            quoted (replace_all (CHR 0x0A) [CHR 0x5C, CHR ''n'']
                      (replace_all (CHR 0x22) [CHR 0x5C, CHR 0x22]
                         (or_empty (artist_description a)))) @ '',\<newline>'' @
         ''    style: ['' @ join '', '' (map quoted (style a)) @ ''],\<newline>'' @
         ''    social: {\<newline>'' @
         social_code @ ''\<newline>'' @
         ''    },\<newline>'' @
         ''    country: '' @ quoted (country a) @ '',\<newline>'' @
         ''    image_url: '' @ quoted (image_url a) @ '','' @ videos_code @ ''\<newline>'' @
         ''  }''))\<close>

definition releaseToTS :: "Release \<Rightarrow> string option" where
  \<open>releaseToTS r =
     (case show_int (release_id r) of
        None \<Rightarrow> None
      | Some id_code \<Rightarrow> Some
     (let code0 =
            ''  {\<newline>'' @
            ''    id: '' @ id_code @ '',\<newline>'' @
            ''    title: '' @ quoted (title r) @ '',\<newline>'' @
            ''    artist: '' @ quoted (artist r) @ '',\<newline>'' @
            ''    type: '' @ quoted (release_type r) @ '',\<newline>'' @
            ''    releaseDate: '' @ quoted (releaseDate r) @ '',\<newline>'' @
            ''    catalogNumber: '' @ quoted (or_empty (catalogNumber r)) @ '',\<newline>'' @
            ''    coverUrl: '' @ quoted (coverUrl r) @ '',\<newline>'' @
            ''    bandcampUrl: '' @ quoted (bandcampUrl r) @ '',\<newline>'' @
            ''    bandcampId: '' @ quoted (bandcampId r) @ '','';
          code1 =
            (case release_description r of
               None \<Rightarrow> code0
             | Some d \<Rightarrow>
                 if d = [] then code0
                 else code0 @ ''\<newline>    description: ''
                      @ quoted (replace_all (CHR 0x22) [CHR 0x5C, CHR 0x22] d) @ '','');
          code2 =
            (case tracklist r of
               None \<Rightarrow> code1
             | Some ts \<Rightarrow>
                 if ts = [] then code1
                 else code1 @ ''\<newline>    tracklist: ['' @ join '', '' (map quoted ts) @ ''],'')
      in code2 @ ''\<newline>  }''))\<close>

subsection \<open>writeArtistsFile and writeReleasesFile\<close>

text \<open>
  The content handed to \<^verbatim>\<open>fs.writeFileSync\<close>: the array between the fixed texts, where
  every entity has its text.
\<close>

definition artists_header :: string where
  \<open>artists_header =
     ''import type { Artist } from "../types/artist"\<newline>'' @
     ''import { slugify } from "../utils/slugify"\<newline>'' @
     ''\<newline>'' @
     ''const artistsData = [\<newline>''\<close>

definition artists_footer :: string where
  \<open>artists_footer =
     ''\<newline>'' @
     '']\<newline>'' @
     ''\<newline>'' @
     ''// Add slugs to all artists\<newline>'' @
     ''export const artists: Artist[] = artistsData.map((artist) => ({\<newline>'' @
     ''  ...artist,\<newline>'' @
     ''  slug: slugify(artist.name),\<newline>'' @
     ''  videos: artist.videos || [],\<newline>'' @
     ''}))\<newline>'' @
     ''\<newline>'' @
     ''// Helper functions\<newline>'' @
     ''export function getArtistBySlug(slug: string): Artist | undefined {\<newline>'' @
     ''  return artists.find((artist) => artist.slug === slug)\<newline>'' @
     ''}\<newline>'' @
     ''\<newline>'' @
     ''export function getArtistById(id: number): Artist | undefined {\<newline>'' @
     ''  return artists.find((artist) => artist.id === id)\<newline>'' @
     ''}\<newline>'' @
     ''\<newline>'' @
     ''export function getAllStyles(): string[] {\<newline>'' @
     ''  const styles = new Set<string>()\<newline>'' @
     ''  artists.forEach((artist) => {\<newline>'' @
     ''    artist.style.forEach((s) => styles.add(s))\<newline>'' @
     ''  })\<newline>'' @
     ''  return Array.from(styles).sort()\<newline>'' @
     ''}\<newline>'' @
     ''\<newline>'' @
     ''export function getAllCountries(): string[] {\<newline>'' @
     ''  const countries = new Set<string>()\<newline>'' @
     ''  artists.forEach((artist) => countries.add(artist.country))\<newline>'' @
     ''  return Array.from(countries).sort()\<newline>'' @
     ''}\<newline>''\<close>

definition releases_header :: string where
  \<open>releases_header =
     ''import type { Release } from "../types/release"\<newline>'' @
     ''\<newline>'' @
     ''export const releases: Release[] = [\<newline>''\<close>

definition releases_footer :: string where
  \<open>releases_footer =
     ''\<newline>'' @
     '']\<newline>'' @
     ''\<newline>'' @
     ''// Helper functions\<newline>'' @
     ''export function getReleaseById(id: number): Release | undefined {\<newline>'' @
     ''  return releases.find((release) => release.id === id)\<newline>'' @
     ''}\<newline>'' @
     ''\<newline>'' @
     ''export function getReleasesByArtist(artistName: string): Release[] {\<newline>'' @
     ''  return releases.filter((release) => {\<newline>'' @
     ''    const releaseLower = release.artist.toLowerCase()\<newline>'' @
     ''    const titleLower = release.title.toLowerCase()\<newline>'' @
     ''    const artistLower = artistName.toLowerCase()\<newline>'' @
     ''\<newline>'' @
     ''    // Match if artist name is in the artist field or in the title\<newline>'' @
     ''    return releaseLower.includes(artistLower) || titleLower.includes(artistLower)\<newline>'' @
     ''  })\<newline>'' @
     ''}\<newline>'' @
     ''\<newline>'' @
     ''export function getReleasesByType(type: Release["type"]): Release[] {\<newline>'' @
     ''  return releases.filter((release) => release.type === type)\<newline>'' @
     ''}\<newline>'' @
     ''\<newline>'' @
     ''export function getReleasesByYear(year: string): Release[] {\<newline>'' @
     ''  return releases.filter((release) => release.releaseDate.includes(year))\<newline>'' @
     ''}\<newline>''\<close>

definition writeArtistsFile :: "Artist list \<Rightarrow> string option" where
  \<open>writeArtistsFile artists =
     map_option (\<lambda>artistsCode. artists_header @ join '',\<newline>'' artistsCode @ artists_footer)
       (those (map artistToTS artists))\<close>

definition writeReleasesFile :: "Release list \<Rightarrow> string option" where
  \<open>writeReleasesFile releases =
     map_option (\<lambda>releasesCode. releases_header @ join '',\<newline>'' releasesCode @ releases_footer)
       (those (map releaseToTS releases))\<close>

subsection \<open>Reading the array back\<close>

text \<open>
  The regular expressions of \<open>parseArtistsFile\<close> and \<open>parseReleasesFile\<close> are a fixed
  text, a lazy group of any characters, and a newline followed by a closing bracket: the
  group is what stands between the first occurrence of the fixed text and the first
  newline-and-bracket after it.
\<close>

fun find_after :: "string \<Rightarrow> string \<Rightarrow> string option" where
  "find_after pat [] = (if pat = [] then Some [] else None)"
| "find_after pat (c # cs) =
     (if prefix pat (c # cs) then Some (drop (length pat) (c # cs)) else find_after pat cs)"

fun take_before :: "string \<Rightarrow> string \<Rightarrow> string option" where
  "take_before pat [] = (if pat = [] then Some [] else None)"
| "take_before pat (c # cs) =
     (if prefix pat (c # cs) then Some [] else map_option ((#) c) (take_before pat cs))"

definition regex_group :: "string \<Rightarrow> string \<Rightarrow> string option" where
  \<open>regex_group start content =
     (case find_after start content of
        None \<Rightarrow> None
      | Some rest \<Rightarrow> take_before ''\<newline>]'' rest)\<close>

subsection \<open>Evaluating an array literal\<close>

text \<open>
  \<^verbatim>\<open>eval\<close> of the text of an array literal, for the literals the serializers write:
  arrays and objects (a trailing comma allowed) of numbers and double-quoted strings, the
  object keys being identifiers or strings. A string literal ends at the next quote that
  no backslash precedes; a line break inside it is a syntax error, as is the end of the
  text. Text of any other form is outside of this fragment, and reported as such.
\<close>

datatype js_value =
  JNumber int | JString string | JArray "js_value list" | JObject "(string \<times> js_value) list"

datatype eval_failure = Throws js_error | Outside_fragment

datatype js_token =
  LBracket | RBracket | LBrace | RBrace | Colon | Comma
  | TString string | TNumber int | TIdent string

datatype lex_state = Outside | InString string | InEscape string | InNumber bool int | InIdent string

text \<open>
  The token of a numeric literal, for the integers that the number type holds exactly; a
  literal beyond them is read rounded, and is outside of this fragment.
\<close>

definition number_token :: "bool \<Rightarrow> int \<Rightarrow> js_token option" where
  "number_token neg n =
     (if n > 9007199254740991 then None
      else Some (TNumber (if neg then - n else n)))"

definition is_digit :: "char \<Rightarrow> bool" where
  "is_digit c = (let n = (of_char c :: nat) in 48 \<le> n \<and> n \<le> 57)"

definition is_ident_start :: "char \<Rightarrow> bool" where
  "is_ident_start c =
     (let n = (of_char c :: nat)
      in (65 \<le> n \<and> n \<le> 90) \<or> (97 \<le> n \<and> n \<le> 122) \<or> c = CHR ''_'' \<or> c = CHR ''$'')"

definition is_space :: "char \<Rightarrow> bool" where
  "is_space c = (c = CHR '' '' \<or> c = CHR 0x09 \<or> c = CHR 0x0A \<or> c = CHR 0x0D)"

definition digit_value :: "char \<Rightarrow> int" where
  "digit_value c = of_char c - 48"

text \<open>The character after a backslash in a string literal.\<close>

definition unescape :: "char \<Rightarrow> string option" where
  "unescape e =
     (if e = CHR ''n'' then Some [CHR 0x0A]
      else if e = CHR ''t'' then Some [CHR 0x09]
      else if e = CHR ''r'' then Some [CHR 0x0D]
      else if e = CHR ''b'' then Some [CHR 0x08]
      else if e = CHR ''f'' then Some [CHR 0x0C]
      else if e = CHR ''v'' then Some [CHR 0x0B]
      else if e = CHR 0x0A then Some []
      else if e = CHR ''x'' \<or> e = CHR ''u'' \<or> e = CHR 0x0D \<or> is_digit e then None
      else Some [e])"

text \<open>A character read outside of any token.\<close>

definition lex_outside :: "js_token list \<Rightarrow> char \<Rightarrow> eval_failure + lex_state \<times> js_token list" where
  "lex_outside toks c =
     (if is_space c then Inr (Outside, toks)
      else if c = CHR ''['' then Inr (Outside, LBracket # toks)
      else if c = CHR '']'' then Inr (Outside, RBracket # toks)
      else if c = CHR ''{'' then Inr (Outside, LBrace # toks)
      else if c = CHR ''}'' then Inr (Outside, RBrace # toks)
      else if c = CHR '':'' then Inr (Outside, Colon # toks)
      else if c = CHR '','' then Inr (Outside, Comma # toks)
      else if c = CHR 0x22 then Inr (InString [], toks)
      else if c = CHR ''-'' then Inr (InNumber True 0, toks)
      else if is_digit c then Inr (InNumber False (digit_value c), toks)
      else if is_ident_start c then Inr (InIdent [c], toks)
      else Inl Outside_fragment)"

text \<open>The tokens are collected last first; so are the characters of a string.\<close>

fun lex_step :: "lex_state \<times> js_token list \<Rightarrow> char \<Rightarrow> eval_failure + lex_state \<times> js_token list" where
  "lex_step (Outside, toks) c = lex_outside toks c"
| "lex_step (InString acc, toks) c =
     (if c = CHR 0x22 then Inr (Outside, TString (rev acc) # toks)
      else if c = CHR 0x5C then Inr (InEscape acc, toks)
      else if c = CHR 0x0A \<or> c = CHR 0x0D
        then Inl (Throws (SyntaxError ''Invalid or unexpected token''))
      else Inr (InString (c # acc), toks))"
| "lex_step (InEscape acc, toks) c =
     (case unescape c of
        None \<Rightarrow> Inl Outside_fragment
      | Some s \<Rightarrow> Inr (InString (rev s @ acc), toks))"
| "lex_step (InNumber neg n, toks) c =
     (if is_digit c then Inr (InNumber neg (10 * n + digit_value c), toks)
      else if is_ident_start c \<or> c = CHR ''.'' then Inl Outside_fragment
      else (case number_token neg n of
              None \<Rightarrow> Inl Outside_fragment
            | Some t \<Rightarrow> lex_outside (t # toks) c))"
| "lex_step (InIdent acc, toks) c =
     (if is_ident_start c \<or> is_digit c then Inr (InIdent (c # acc), toks)
      else lex_outside (TIdent (rev acc) # toks) c)"

fun lex_all :: "lex_state \<times> js_token list \<Rightarrow> string \<Rightarrow> eval_failure + lex_state \<times> js_token list" where
  "lex_all st [] = Inr st"
| "lex_all st (c # cs) = (case lex_step st c of Inl e \<Rightarrow> Inl e | Inr st' \<Rightarrow> lex_all st' cs)"

definition lex :: "string \<Rightarrow> eval_failure + js_token list" where
  "lex text =
     (case lex_all (Outside, []) text of
        Inl e \<Rightarrow> Inl e
      | Inr (Outside, toks) \<Rightarrow> Inr (rev toks)
      | Inr (InString acc, toks) \<Rightarrow> Inl (Throws (SyntaxError ''Invalid or unexpected token''))
      | Inr (InEscape acc, toks) \<Rightarrow> Inl (Throws (SyntaxError ''Invalid or unexpected token''))
      | Inr (InNumber neg n, toks) \<Rightarrow>
          (case number_token neg n of
             None \<Rightarrow> Inl Outside_fragment
           | Some t \<Rightarrow> Inr (rev (t # toks)))
      | Inr (InIdent acc, toks) \<Rightarrow> Inr (rev (TIdent (rev acc) # toks)))"

text \<open>
  The parser keeps the arrays and objects that are still open, innermost first, an object
  with the key whose value is being read.
\<close>

datatype frame = ArrF "js_value list" | ObjF "(string \<times> js_value) list" "string option"

datatype parse_mode = Value | ValueOrClose | AfterValue | Key | AfterKey | Finished js_value

text \<open>A value is complete: it is the result, or goes to the innermost open array or object.\<close>

fun deliver :: "js_value \<Rightarrow> frame list \<Rightarrow> eval_failure + parse_mode \<times> frame list" where
  "deliver v [] = Inr (Finished v, [])"
| "deliver v (ArrF items # st) = Inr (AfterValue, ArrF (v # items) # st)"
| "deliver v (ObjF ms (Some k) # st) = Inr (AfterValue, ObjF ((k, v) # ms) None # st)"
| "deliver v (ObjF ms None # st) = Inl Outside_fragment"

definition unexpected :: "eval_failure + parse_mode \<times> frame list" where
  "unexpected = Inl (Throws (SyntaxError ''Unexpected token''))"

fun parse_value :: "frame list \<Rightarrow> js_token \<Rightarrow> eval_failure + parse_mode \<times> frame list" where
  "parse_value st (TNumber n) = deliver (JNumber n) st"
| "parse_value st (TString s) = deliver (JString s) st"
| "parse_value st LBracket = Inr (ValueOrClose, ArrF [] # st)"
| "parse_value st LBrace = Inr (Key, ObjF [] None # st)"
| "parse_value st (TIdent x) = Inl Outside_fragment"
| "parse_value st Comma = Inl Outside_fragment"
| "parse_value st t = unexpected"

fun close_array :: "frame list \<Rightarrow> eval_failure + parse_mode \<times> frame list" where
  "close_array (ArrF items # st) = deliver (JArray (rev items)) st"
| "close_array st = unexpected"

fun close_object :: "frame list \<Rightarrow> eval_failure + parse_mode \<times> frame list" where
  "close_object (ObjF ms None # st) = deliver (JObject (rev ms)) st"
| "close_object st = unexpected"

fun parse_step :: "parse_mode \<times> frame list \<Rightarrow> js_token \<Rightarrow> eval_failure + parse_mode \<times> frame list" where
  "parse_step (Value, st) t = parse_value st t"
| "parse_step (ValueOrClose, st) t = (if t = RBracket then close_array st else parse_value st t)"
| "parse_step (AfterValue, st) t =
     (if t = Comma
      then (case st of
              ArrF items # st' \<Rightarrow> Inr (ValueOrClose, st)
            | ObjF ms k # st' \<Rightarrow> Inr (Key, st)
            | [] \<Rightarrow> Inl Outside_fragment)
      else if t = RBracket then close_array st
      else if t = RBrace then close_object st
      else unexpected)"
| "parse_step (Key, st) t =
     (case (t, st) of
        (TIdent k, ObjF ms None # st') \<Rightarrow> Inr (AfterKey, ObjF ms (Some k) # st')
      | (TString k, ObjF ms None # st') \<Rightarrow> Inr (AfterKey, ObjF ms (Some k) # st')
      | (RBrace, _) \<Rightarrow> close_object st
      | (TNumber n, _) \<Rightarrow> Inl Outside_fragment
      | (LBracket, _) \<Rightarrow> Inl Outside_fragment
      | _ \<Rightarrow> unexpected)"
| "parse_step (AfterKey, st) t = (if t = Colon then Inr (Value, st) else Inl Outside_fragment)"
| "parse_step (Finished v, st) t = Inl Outside_fragment"

fun parse_all :: "parse_mode \<times> frame list \<Rightarrow> js_token list \<Rightarrow> eval_failure + parse_mode \<times> frame list" where
  "parse_all st [] = Inr st"
| "parse_all st (t # ts) = (case parse_step st t of Inl e \<Rightarrow> Inl e | Inr st' \<Rightarrow> parse_all st' ts)"

definition js_eval :: "string \<Rightarrow> eval_failure + js_value" where
  "js_eval text =
     (case lex text of
        Inl e \<Rightarrow> Inl e
      | Inr toks \<Rightarrow>
          (case parse_all (Value, []) toks of
             Inl e \<Rightarrow> Inl e
           | Inr (Finished v, st) \<Rightarrow> Inr v
           | Inr _ \<Rightarrow> Inl (Throws (SyntaxError ''Unexpected end of input''))))"

subsection \<open>parseArtistsFile and parseReleasesFile\<close>

definition parseArtistsFile :: "string \<Rightarrow> eval_failure + js_value" where
  "parseArtistsFile content =
     (case regex_group ''const artistsData = ['' content of
        None \<Rightarrow> Inl (Throws (Error ''Could not parse artists file''))
      | Some m \<Rightarrow> js_eval (''['' @ m @ '']''))"

definition parseReleasesFile :: "string \<Rightarrow> eval_failure + js_value" where
  "parseReleasesFile content =
     (case regex_group ''export const releases: Release[] = ['' content of
        None \<Rightarrow> Inl (Throws (Error ''Could not parse releases file''))
      | Some m \<Rightarrow> js_eval (''['' @ m @ '']''))"

subsection \<open>Entities as values\<close>

text \<open>
  The object an entity is, field for field: an optional field that is absent is no
  property of the object.
\<close>

definition optional :: "string \<Rightarrow> 'a option \<Rightarrow> ('a \<Rightarrow> js_value) \<Rightarrow> (string \<times> js_value) list" where
  "optional k x f = (case x of None \<Rightarrow> [] | Some v \<Rightarrow> [(k, f v)])"

definition strings :: "string list \<Rightarrow> js_value" where
  "strings xs = JArray (map JString xs)"

definition artist_value :: "Artist \<Rightarrow> js_value" where
  "artist_value a =
     JObject ([(''id'', JNumber (artist_id a)), (''name'', JString (artist_name a)),
               (''act'', JString (act a))]
              @ optional ''description'' (artist_description a) JString
              @ [(''style'', strings (style a))]
              @ optional ''social'' (social a) (\<lambda>es. JObject (map (\<lambda>(k, v). (k, JString v)) es))
              @ [(''country'', JString (country a)), (''image_url'', JString (image_url a))]
              @ optional ''videos'' (videos a) strings)"

definition release_value :: "Release \<Rightarrow> js_value" where
  "release_value r =
     JObject ([(''id'', JNumber (release_id r)), (''title'', JString (title r)),
               (''artist'', JString (artist r)), (''type'', JString (release_type r)),
               (''releaseDate'', JString (releaseDate r))]
              @ optional ''catalogNumber'' (catalogNumber r) JString
              @ [(''coverUrl'', JString (coverUrl r)), (''bandcampUrl'', JString (bandcampUrl r)),
                 (''bandcampId'', JString (bandcampId r))]
              @ optional ''description'' (release_description r) JString
              @ optional ''tracklist'' (tracklist r) strings)"

definition example_artist :: Artist where
  "example_artist =
     \<lparr> artist_id = 3, artist_name = ''Kuro'', act = ''live'',
       artist_description = Some (''Says '' @ [CHR 0x22] @ ''hi'' @ [CHR 0x22, CHR 0x0A] @ ''twice''),
       style = [''psy'', ''dark''], social = Some [(''instagram'', ''kuro''), (''soundcloud'', ''k2'')],
       country = ''FR'', image_url = ''/img/kuro.jpg'', videos = Some [''v1'', ''v2''] \<rparr>"

definition example_release :: Release where
  "example_release =
     \<lparr> release_id = 12, title = ''Dawn'', artist = ''Kuro'', release_type = ''EP'',
       releaseDate = ''2024-05-01'', catalogNumber = Some ''TR012'', coverUrl = ''/c.jpg'',
       bandcampUrl = ''https://x.bandcamp.com/album/dawn'', bandcampId = ''123'',
       release_description = Some (''Says '' @ [CHR 0x22] @ ''hi'' @ [CHR 0x22]),
       tracklist = Some [''One'', ''Two''] \<rparr>"

section \<open>Properties of the share-link service\<close>

lemma single_filter_none:
  "\<forall>r \<in> set xs. \<not> P r \<Longrightarrow> single (filter P xs) = None"
  by (induction xs) auto

lemma select_by_token_unknown:
  "\<forall>r \<in> set (rows db). token r \<noteq> tok \<Longrightarrow> select_by_token db tok = None"
  by (simp add: select_by_token_def single_filter_none)

lemma example_env_configured: "getSupabaseAdminClient example_env = Inr ()"
  by (simp add: getSupabaseAdminClient_def example_env_def)

text \<open>
  C1, as stated, fails where the credentials of the admin client are not configured:
  \<open>validateShareLink\<close> then throws, for a token no row carries as for any other, and
  gives no reason.
\<close>

theorem validateShareLink_throws_counterexample:
  "validateShareLink example_verify
     \<lparr> VITE_SUPABASE_URL = Some ''https://db.example.org'', SUPABASE_SERVICE_KEY = None \<rparr>
     (example_db [example_link]) 1500 ''nope'' None
   = Inl (Error ''Supabase admin credentials not configured'')"
  by (simp add: validateShareLink_def getShareLink_def getSupabaseAdminClient_def)

text \<open>
  C1, amended. With the credentials of the admin client configured, \<open>validateShareLink\<close>
  throws nothing and checks existence, the active flag, expiry against the current time,
  the download count against the maximum, and the password, in this order, answering
  with the reason of the first check that fails whatever the later checks would say.
  A token no row carries gives \<open>Link not found\<close>, and a deactivated link reports the
  deactivation whether or not it has expired.
\<close>

theorem validateShareLink_check_order:
  assumes "getSupabaseAdminClient env = Inr ()"
  shows "(\<exists>r. validateShareLink v env db now tok pw = Inr r)
   \<and> (\<not> link_exists env db tok \<longrightarrow>
      validateShareLink v env db now tok pw = Inr (Invalid ''Link not found''))
   \<and> ((\<forall>r \<in> set (rows db). token r \<noteq> tok) \<longrightarrow>
      validateShareLink v env db now tok pw = Inr (Invalid ''Link not found''))
   \<and> (\<forall>link. getShareLink env db tok = Inr (Some link) \<longrightarrow>
       (\<not> is_active link \<longrightarrow>
          validateShareLink v env db now tok pw = Inr (Invalid ''Link has been deactivated''))
     \<and> (is_active link \<and> link_expired now link \<longrightarrow>
          validateShareLink v env db now tok pw = Inr (Invalid ''Link has expired''))
     \<and> (is_active link \<and> \<not> link_expired now link \<and> limit_reached link \<longrightarrow>
          validateShareLink v env db now tok pw = Inr (Invalid ''Download limit reached''))
     \<and> (is_active link \<and> \<not> link_expired now link \<and> \<not> limit_reached link
          \<and> password_missing link pw \<longrightarrow>
          validateShareLink v env db now tok pw = Inr (Invalid ''Password required''))
     \<and> (is_active link \<and> \<not> link_expired now link \<and> \<not> limit_reached link
          \<and> \<not> password_missing link pw \<and> password_wrong v link pw \<longrightarrow>
          validateShareLink v env db now tok pw = Inr (Invalid ''Invalid password''))
     \<and> (is_active link \<and> \<not> link_expired now link \<and> \<not> limit_reached link
          \<and> \<not> password_missing link pw \<and> \<not> password_wrong v link pw \<longrightarrow>
          validateShareLink v env db now tok pw = Inr (Valid link)))"
proof (intro conjI allI impI)
  have g: "getShareLink env db tok = Inr (select_by_token db tok)"
    using assms by (simp add: getShareLink_def)
  show "\<exists>r. validateShareLink v env db now tok pw = Inr r"
    by (auto simp: validateShareLink_def g split: option.splits)
  {
    assume "\<not> link_exists env db tok"
    then have "select_by_token db tok = None"
      by (cases "select_by_token db tok") (simp_all add: link_exists_def g)
    then show "validateShareLink v env db now tok pw = Inr (Invalid ''Link not found'')"
      by (simp add: validateShareLink_def g)
  }
  {
    assume "\<forall>r \<in> set (rows db). token r \<noteq> tok"
    then have "select_by_token db tok = None" by (rule select_by_token_unknown)
    then show "validateShareLink v env db now tok pw = Inr (Invalid ''Link not found'')"
      by (simp add: validateShareLink_def g)
  }
next
  fix link assume "getShareLink env db tok = Inr (Some link)" "\<not> is_active link"
  then show "validateShareLink v env db now tok pw = Inr (Invalid ''Link has been deactivated'')"
    by (simp add: validateShareLink_def)
next
  fix link assume "getShareLink env db tok = Inr (Some link)" "is_active link \<and> link_expired now link"
  then show "validateShareLink v env db now tok pw = Inr (Invalid ''Link has expired'')"
    by (simp add: validateShareLink_def link_expired_def)
next
  fix link assume "getShareLink env db tok = Inr (Some link)"
    "is_active link \<and> \<not> link_expired now link \<and> limit_reached link"
  then show "validateShareLink v env db now tok pw = Inr (Invalid ''Download limit reached'')"
    by (simp add: validateShareLink_def link_expired_def limit_reached_def)
next
  fix link assume "getShareLink env db tok = Inr (Some link)"
    "is_active link \<and> \<not> link_expired now link \<and> \<not> limit_reached link
     \<and> password_missing link pw"
  then show "validateShareLink v env db now tok pw = Inr (Invalid ''Password required'')"
    by (cases "password_hash link"; cases pw)
       (auto simp: validateShareLink_def link_expired_def limit_reached_def
          password_missing_def)
next
  fix link assume "getShareLink env db tok = Inr (Some link)"
    "is_active link \<and> \<not> link_expired now link \<and> \<not> limit_reached link
     \<and> \<not> password_missing link pw \<and> password_wrong v link pw"
  then show "validateShareLink v env db now tok pw = Inr (Invalid ''Invalid password'')"
    by (cases "password_hash link"; cases pw)
       (auto simp: validateShareLink_def link_expired_def limit_reached_def
          password_missing_def password_wrong_def)
next
  fix link assume "getShareLink env db tok = Inr (Some link)"
    "is_active link \<and> \<not> link_expired now link \<and> \<not> limit_reached link
     \<and> \<not> password_missing link pw \<and> \<not> password_wrong v link pw"
  then show "validateShareLink v env db now tok pw = Inr (Valid link)"
    by (cases "password_hash link"; cases pw)
       (auto simp: validateShareLink_def link_expired_def limit_reached_def
          password_missing_def password_wrong_def)
qed

theorem validateShareLink_check_order_witness:
  "validateShareLink example_verify example_env (example_db [example_link]) 1500 ''nope'' None
     = Inr (Invalid ''Link not found'')
   \<and> validateShareLink example_verify example_env
       (example_db [example_link\<lparr>is_active := False\<rparr>]) 1500
       ''00112233445566778899aabbccddeeff'' None = Inr (Invalid ''Link has been deactivated'')
   \<and> validateShareLink example_verify example_env
       (example_db [example_link\<lparr>is_active := False\<rparr>]) 2500
       ''00112233445566778899aabbccddeeff'' None = Inr (Invalid ''Link has been deactivated'')
   \<and> validateShareLink example_verify example_env (example_db [example_link]) 2500
       ''00112233445566778899aabbccddeeff'' None = Inr (Invalid ''Link has expired'')
   \<and> validateShareLink example_verify example_env (example_db [example_link]) 1500
       ''00112233445566778899aabbccddeeff'' None = Inr (Invalid ''Download limit reached'')
   \<and> validateShareLink example_verify example_env
       (example_db [example_link\<lparr>download_count := 0\<rparr>]) 1500
       ''00112233445566778899aabbccddeeff'' None = Inr (Invalid ''Password required'')
   \<and> validateShareLink example_verify example_env
       (example_db [example_link\<lparr>download_count := 0\<rparr>]) 1500
       ''00112233445566778899aabbccddeeff'' (Some ''guess'') = Inr (Invalid ''Invalid password'')
   \<and> validateShareLink example_verify example_env
       (example_db [example_link\<lparr>download_count := 0\<rparr>]) 1500
       ''00112233445566778899aabbccddeeff'' (Some ''secret'')
       = Inr (Valid (example_link\<lparr>download_count := 0\<rparr>))"
  using validateShareLink_check_order [OF example_env_configured,
      of example_verify "example_db [example_link]" 1500 "''nope''" None]
    validateShareLink_check_order [OF example_env_configured,
      of example_verify "example_db [example_link\<lparr>is_active := False\<rparr>]" 1500
         "''00112233445566778899aabbccddeeff''" None]
    validateShareLink_check_order [OF example_env_configured,
      of example_verify "example_db [example_link\<lparr>is_active := False\<rparr>]" 2500
         "''00112233445566778899aabbccddeeff''" None]
    validateShareLink_check_order [OF example_env_configured,
      of example_verify "example_db [example_link]" 2500
         "''00112233445566778899aabbccddeeff''" None]
    validateShareLink_check_order [OF example_env_configured,
      of example_verify "example_db [example_link]" 1500
         "''00112233445566778899aabbccddeeff''" None]
    validateShareLink_check_order [OF example_env_configured,
      of example_verify "example_db [example_link\<lparr>download_count := 0\<rparr>]" 1500
         "''00112233445566778899aabbccddeeff''" None]
    validateShareLink_check_order [OF example_env_configured,
      of example_verify "example_db [example_link\<lparr>download_count := 0\<rparr>]" 1500
         "''00112233445566778899aabbccddeeff''" "Some ''guess''"]
    validateShareLink_check_order [OF example_env_configured,
      of example_verify "example_db [example_link\<lparr>download_count := 0\<rparr>]" 1500
         "''00112233445566778899aabbccddeeff''" "Some ''secret''"]
  by (simp add: example_db_def example_link_def example_verify_def getShareLink_def
        example_env_configured select_by_token_def link_exists_def link_expired_def
        limit_reached_def password_missing_def password_wrong_def)

subsection \<open>Token generation and the uniqueness loop\<close>

lemma hex_digit_mem: "hex_digit d \<in> set ''0123456789abcdef''"
  unfolding hex_digit_def by (rule nth_mem) simp

lemma length_toString_hex: "length (toString_hex bs) = 2 * length bs"
  by (induction bs) (simp_all add: toString_hex_def hex_byte_def)

lemma set_toString_hex: "set (toString_hex bs) \<subseteq> set ''0123456789abcdef''"
  using hex_digit_mem by (auto simp: toString_hex_def hex_byte_def)

lemma generateShareToken_format:
  assumes "generateShareToken src = Some (t, src')"
  shows "hex_token t" and "\<exists>bs. length bs = 16 \<and> t = toString_hex bs \<and> src = bs @ src'"
proof -
  from assms have t: "t = toString_hex (take 16 src)" and l: "16 \<le> length src"
    and s: "src' = drop 16 src"
    by (auto simp: generateShareToken_def randomBytes_def split: if_splits)
  show "hex_token t"
    unfolding hex_token_def using t l set_toString_hex [of "take 16 src"]
    by (simp add: length_toString_hex)
  show "\<exists>bs. length bs = 16 \<and> t = toString_hex bs \<and> src = bs @ src'"
    using t l s by (intro exI [of _ "take 16 src"]) simp
qed

lemma uniqueToken_fresh:
  "uniqueToken db tok src = Some (tok', src') \<Longrightarrow> select_by_token db tok' = None"
proof (induction db tok src rule: uniqueToken.induct)
  case (1 db tok src)
  show ?case
  proof (cases "select_by_token db tok")
    case None
    with "1.prems" show ?thesis by (simp add: uniqueToken.simps)
  next
    case (Some existing)
    with "1.prems" obtain t s where g: "generateShareToken src = Some (t, s)"
      and u: "uniqueToken db t s = Some (tok', src')"
      by (auto simp: uniqueToken.simps [of db tok src] split: option.splits)
    from "1.IH" [OF Some g refl u] show ?thesis .
  qed
qed

lemma uniqueToken_format:
  "uniqueToken db tok src = Some (tok', src') \<Longrightarrow> hex_token tok \<Longrightarrow> hex_token tok'"
proof (induction db tok src rule: uniqueToken.induct)
  case (1 db tok src)
  show ?case
  proof (cases "select_by_token db tok")
    case None
    with "1.prems" show ?thesis by (simp add: uniqueToken.simps)
  next
    case (Some existing)
    with "1.prems" obtain t s where g: "generateShareToken src = Some (t, s)"
      and u: "uniqueToken db t s = Some (tok', src')"
      by (auto simp: uniqueToken.simps [of db tok src] split: option.splits)
    from "1.IH" [OF Some g refl u] generateShareToken_format(1) [OF g]
    show ?thesis .
  qed
qed

lemma uniqueToken_returns:
  "select_by_token db tok = None \<or> (\<exists>t \<in> set (draws src). select_by_token db t = None)
     \<Longrightarrow> uniqueToken db tok src \<noteq> None"
proof (induction db tok src rule: uniqueToken.induct)
  case (1 db tok src)
  show ?case
  proof (cases "select_by_token db tok")
    case None
    then show ?thesis by (simp add: uniqueToken.simps)
  next
    case (Some existing)
    with "1.prems" obtain t where t: "t \<in> set (draws src)" "select_by_token db t = None"
      by auto
    then obtain t0 s where g: "generateShareToken src = Some (t0, s)"
      by (cases "generateShareToken src") (auto simp: draws.simps [of src])
    with t have "select_by_token db t0 = None \<or> (\<exists>t \<in> set (draws s). select_by_token db t = None)"
      by (auto simp: draws.simps [of src])
    from "1.IH" [OF Some g refl this] Some g show ?thesis
      by (simp add: uniqueToken.simps [of db tok src])
  qed
qed

lemma uniqueToken_mem:
  "uniqueToken db tok src = Some (tok', src') \<Longrightarrow> tok' = tok \<or> tok' \<in> set (draws src)"
proof (induction db tok src rule: uniqueToken.induct)
  case (1 db tok src)
  show ?case
  proof (cases "select_by_token db tok")
    case None
    with "1.prems" show ?thesis by (simp add: uniqueToken.simps)
  next
    case (Some existing)
    with "1.prems" obtain t s where g: "generateShareToken src = Some (t, s)"
      and u: "uniqueToken db t s = Some (tok', src')"
      by (auto simp: uniqueToken.simps [of db tok src] split: option.splits)
    from "1.IH" [OF Some g refl u] g show ?thesis
      by (auto simp: draws.simps [of src])
  qed
qed

lemma filter_key_distinct:
  "distinct (map f xs) \<Longrightarrow> length (filter (\<lambda>r. f r = k) xs) \<le> 1"
proof (induction xs)
  case Nil
  then show ?case by simp
next
  case (Cons x xs)
  show ?case
  proof (cases "f x = k")
    case True
    with Cons.prems have "\<forall>r \<in> set xs. f r \<noteq> k" by (auto simp: image_def)
    then have "filter (\<lambda>r. f r = k) xs = []" by (simp add: filter_empty_conv)
    with True show ?thesis by simp
  next
    case False
    with Cons show ?thesis by simp
  qed
qed

lemma single_None_short: "single xs = None \<Longrightarrow> length xs \<le> 1 \<Longrightarrow> xs = []"
  by (cases xs rule: single.cases) auto

lemma select_None_unused:
  assumes "select_by_token db tok = None" "read_ok db" "distinct (map token (rows db))"
  shows "tok \<notin> token ` set (rows db)"
proof -
  from assms(1,2) have "single (filter (\<lambda>r. token r = tok) (rows db)) = None"
    by (simp add: select_by_token_def)
  with filter_key_distinct [OF assms(3), of tok]
  have "filter (\<lambda>r. token r = tok) (rows db) = []"
    using single_None_short by blast
  then show ?thesis by (auto simp: filter_empty_conv image_def)
qed

lemma select_appended:
  assumes "read_ok db" "token row \<notin> token ` set (rows db)"
  shows "select_by_token (db\<lparr>rows := rows db @ [row]\<rparr>) (token row) = Some row"
proof -
  from assms(2) have "filter (\<lambda>r. token r = token row) (rows db) = []"
    by (auto simp: filter_empty_conv image_def)
  with assms(1) show ?thesis by (simp add: select_by_token_def)
qed

lemma createShareLink_InrD:
  assumes "createShareLink h env db nid now src opts = Some (Inr (row, db'))"
  shows "\<exists>tok0 src0 tok src1.
           getSupabaseAdminClient env = Inr ()
         \<and> generateShareToken src = Some (tok0, src0)
         \<and> uniqueToken db tok0 src0 = Some (tok, src1)
         \<and> write_ok db
         \<and> row = insert_row nid now tok opts
                   (if truthy_number (expiresIn opts)
                    then map_option (\<lambda>ttl. now + ttl) (expiresIn opts) else None)
                   (if truthy_string (password opts)
                    then map_option h (password opts) else None)
         \<and> db' = db\<lparr>rows := rows db @ [row]\<rparr>"
  using assms
  by (auto simp: createShareLink_def Let_def toISOString_def
           split: option.splits sum.splits if_splits prod.splits)

lemma createShareLink_token_facts:
  assumes c: "createShareLink h env db nid now src opts = Some (Inr (row, db'))"
  shows "hex_token (token row)" "token row \<in> set (draws src)"
    "select_by_token db (token row) = None" "db' = db\<lparr>rows := rows db @ [row]\<rparr>"
    "getSupabaseAdminClient env = Inr ()" "write_ok db"
proof -
  from createShareLink_InrD [OF c] obtain tok0 src0 tok src1 e ph where
    g: "generateShareToken src = Some (tok0, src0)"
    and u: "uniqueToken db tok0 src0 = Some (tok, src1)"
    and r: "row = insert_row nid now tok opts e ph"
    and d: "db' = db\<lparr>rows := rows db @ [row]\<rparr>"
    and k: "getSupabaseAdminClient env = Inr ()" and w: "write_ok db"
    by blast
  from r have t: "token row = tok" by (simp add: insert_row_def)
  show "hex_token (token row)"
    using uniqueToken_format [OF u generateShareToken_format(1) [OF g]] t by simp
  show "token row \<in> set (draws src)"
    using uniqueToken_mem [OF u] g t by (auto simp: draws.simps [of src])
  show "select_by_token db (token row) = None"
    using uniqueToken_fresh [OF u] t by simp
  show "db' = db\<lparr>rows := rows db @ [row]\<rparr>" by (rule d)
  show "getSupabaseAdminClient env = Inr ()" by (rule k)
  show "write_ok db" by (rule w)
qed

lemma draws_bytes:
  "t \<in> set (draws src) \<Longrightarrow> \<exists>bs. length bs = 16 \<and> t = toString_hex bs"
proof (induction src rule: draws.induct)
  case (1 src)
  show ?case
  proof (cases "generateShareToken src")
    case None
    with "1.prems" show ?thesis by (simp add: draws.simps [of src])
  next
    case (Some p)
    obtain t0 s where p: "p = (t0, s)" by (cases p)
    with Some have g: "generateShareToken src = Some (t0, s)" by simp
    with "1.prems" have "t = t0 \<or> t \<in> set (draws s)" by (simp add: draws.simps [of src])
    then show ?thesis
    proof
      assume "t = t0"
      with generateShareToken_format(2) [OF g] show ?thesis by blast
    next
      assume "t \<in> set (draws s)"
      from "1.IH" [OF g refl this] show ?thesis .
    qed
  qed
qed

lemma draws_nonempty:
  "t \<in> set (draws src) \<Longrightarrow> \<exists>tok0 src0. generateShareToken src = Some (tok0, src0)
      \<and> (t = tok0 \<or> t \<in> set (draws src0))"
  by (cases "generateShareToken src") (auto simp: draws.simps [of src])

text \<open>
  \<open>createShareLink\<close> returns a link as soon as the entropy source yields one token that
  the lookup does not find, the insert being accepted and the expiry within the range
  of dates.
\<close>

lemma createShareLink_returns:
  assumes k: "getSupabaseAdminClient env = Inr ()" and w: "write_ok db"
    and e: "\<forall>ttl. expiresIn opts = Some ttl \<longrightarrow> \<bar>now + ttl\<bar> \<le> 8640000000000000"
    and t: "t \<in> set (draws src)" and fresh: "select_by_token db t = None"
  shows "\<exists>row db'. createShareLink h env db nid now src opts = Some (Inr (row, db'))"
proof -
  from draws_nonempty [OF t] obtain tok0 src0 where
    g: "generateShareToken src = Some (tok0, src0)" and "t = tok0 \<or> t \<in> set (draws src0)"
    by blast
  with fresh have "uniqueToken db tok0 src0 \<noteq> None"
    by (intro uniqueToken_returns) auto
  then obtain tok src1 where u: "uniqueToken db tok0 src0 = Some (tok, src1)" by auto
  show ?thesis
  proof (cases "expiresIn opts")
    case None
    with g u k w show ?thesis by (simp add: createShareLink_def Let_def)
  next
    case (Some ttl)
    with e have "\<bar>now + ttl\<bar> \<le> 8640000000000000" by simp
    with Some g u k w show ?thesis
      by (simp add: createShareLink_def Let_def toISOString_def)
  qed
qed

text \<open>
  Where the lookups are answered and no token is stored twice, the token of the link
  returned is carried by no link stored before.
\<close>

lemma createShareLink_token_fresh:
  assumes "read_ok db" and "distinct (map token (rows db))"
    and c: "createShareLink h env db nid now src opts = Some (Inr (row, db'))"
  shows "hex_token (token row)" and "\<exists>bs. length bs = 16 \<and> token row = toString_hex bs"
    and "token row \<notin> token ` set (rows db)" and "distinct (map token (rows db'))"
proof -
  note f = createShareLink_token_facts [OF c]
  show "hex_token (token row)" by (rule f(1))
  show "\<exists>bs. length bs = 16 \<and> token row = toString_hex bs"
    by (rule draws_bytes [OF f(2)])
  show fresh: "token row \<notin> token ` set (rows db)"
    by (rule select_None_unused [OF f(3) assms(1,2)])
  show "distinct (map token (rows db'))"
    using f(4) assms(2) fresh by simp
qed


subsection \<open>What createShareLink stores\<close>

lemma createShareLink_select:
  assumes c: "createShareLink h env db nid now src opts = Some (Inr (row, db'))"
    and r: "read_ok db" and d: "distinct (map token (rows db))"
  shows "select_by_token db' (token row) = Some row"
proof -
  note f = createShareLink_token_facts [OF c]
  from select_None_unused [OF f(3) r d] have "token row \<notin> token ` set (rows db)" .
  from select_appended [OF r this] f(4) show ?thesis by simp
qed

lemma createShareLink_row_fields:
  assumes c: "createShareLink h env db nid now src opts = Some (Inr (row, db'))"
  shows "expires_at row = (if truthy_number (expiresIn opts)
                           then map_option (\<lambda>ttl. now + ttl) (expiresIn opts) else None)"
    and "max_downloads row = (if truthy_number (maxDownloads opts) then maxDownloads opts else None)"
    and "password_hash row = (if truthy_string (password opts)
                              then map_option h (password opts) else None)"
    and "download_count row = 0" and "is_active row"
    and "file_path row = filePath opts" and "file_name row = fileName opts"
    and "file_size row = fileSize opts" and "created_by row = createdBy opts"
  using createShareLink_InrD [OF c] by (auto simp: insert_row_def)

lemma getShareLink_configured:
  "getSupabaseAdminClient env = Inr () \<Longrightarrow> getShareLink env db tok = Inr (select_by_token db tok)"
  by (simp add: getShareLink_def)




lemma example_store:
  "read_ok (example_db [example_link])" "write_ok (example_db [example_link])"
  "distinct (map token (rows (example_db [example_link])))"
  by (simp_all add: example_db_def)


subsection \<open>Download counting\<close>

lemma single_map: "single (map f xs) = map_option f (single xs)"
  by (cases xs rule: single.cases) auto

lemma single_SomeD: "single ys = Some x \<Longrightarrow> ys = [x]"
  by (cases ys rule: single.cases) auto

lemma single_filter_SomeD:
  assumes "single (filter P xs) = Some x"
  shows "P x" and "x \<in> set xs"
proof -
  from single_SomeD [OF assms] have "x \<in> set (filter P xs)" by simp
  then show "P x" and "x \<in> set xs" by simp_all
qed

lemma filter_map_keyed:
  assumes "\<And>r. f (g r) = f r"
  shows "filter (\<lambda>r. f r = k) (map (\<lambda>r. if f r = k then g r else r) xs)
           = map g (filter (\<lambda>r. f r = k) xs)"
    and "filter (\<lambda>r. f r \<noteq> k) (map (\<lambda>r. if f r = k then g r else r) xs)
           = filter (\<lambda>r. f r \<noteq> k) xs"
  by (induction xs) (auto simp: assms)

lemma increment_select:
  assumes "select_by_token db tok = Some cur" and "write_ok db"
    and k: "getSupabaseAdminClient env = Inr ()"
  shows "\<exists>db1. incrementDownloadCount env db t tok = Inr db1
           \<and> select_by_token db1 tok
               = Some (cur\<lparr>download_count := download_count cur + 1, last_accessed_at := Some t\<rparr>)
           \<and> filter (\<lambda>r. token r \<noteq> tok) (rows db1) = filter (\<lambda>r. token r \<noteq> tok) (rows db)
           \<and> length (rows db1) = length (rows db)
           \<and> read_ok db1 = read_ok db \<and> write_ok db1 = write_ok db"
proof -
  let ?upd = "\<lambda>r. if token r = tok
       then r\<lparr>download_count := download_count cur + 1, last_accessed_at := Some t\<rparr> else r"
  let ?db1 = "db\<lparr>rows := map ?upd (rows db)\<rparr>"
  from assms(1) have r: "read_ok db"
    and s: "single (filter (\<lambda>r. token r = tok) (rows db)) = Some cur"
    by (auto simp: select_by_token_def split: if_splits)
  from s have tc: "token cur = tok" by (rule single_filter_SomeD(1))
  have i: "incrementDownloadCount env db t tok = Inr ?db1"
    using assms by (simp add: incrementDownloadCount_def)
  let ?g = "\<lambda>r. r\<lparr>download_count := download_count cur + 1, last_accessed_at := Some t\<rparr>"
  have "filter (\<lambda>r. token r = tok) (map ?upd (rows db))
      = map ?g (filter (\<lambda>r. token r = tok) (rows db))"
    by (rule filter_map_keyed(1)) simp
  then have a: "select_by_token ?db1 tok = Some (?g cur)"
    using r s by (simp add: select_by_token_def single_map)
  have b: "filter (\<lambda>r. token r \<noteq> tok) (rows ?db1) = filter (\<lambda>r. token r \<noteq> tok) (rows db)"
    using filter_map_keyed(2) [of token ?g tok "rows db"] by simp
  show ?thesis using i a b by simp
qed

lemma increment_InrD:
  "incrementDownloadCount env db t tok = Inr db1 \<Longrightarrow>
     getSupabaseAdminClient env = Inr () \<and> write_ok db \<and> (\<exists>cur. select_by_token db tok = Some cur)"
  by (auto simp: incrementDownloadCount_def split: sum.splits option.splits if_splits)



subsection \<open>Deactivation and deletion\<close>





subsection \<open>Options that are falsy\<close>

lemma select_member:
  assumes "select_by_token db tok = Some x" and "r \<in> set (rows db)" and "token r = tok"
  shows "x = r"
proof -
  from assms(1) have "single (filter (\<lambda>r. token r = tok) (rows db)) = Some x"
    by (auto simp: select_by_token_def split: if_splits)
  then have "filter (\<lambda>r. token r = tok) (rows db) = [x]" by (rule single_SomeD)
  moreover from assms(2,3) have "r \<in> set (filter (\<lambda>r. token r = tok) (rows db))" by simp
  ultimately show ?thesis by simp
qed

lemma downloads_returns:
  assumes "getSupabaseAdminClient env = Inr ()"
  shows "select_by_token db tok = Some cur \<Longrightarrow> write_ok db \<Longrightarrow>
     \<exists>d. downloads env db tok ts = Inr d
        \<and> select_by_token d tok
            = Some (cur\<lparr>download_count := download_count cur + int (length ts),
                         last_accessed_at := (if ts = [] then last_accessed_at cur
                                              else Some (last ts))\<rparr>)"
proof (induction ts arbitrary: db cur)
  case Nil
  then show ?case by simp
next
  case (Cons t ts)
  from increment_select [OF Cons.prems assms, of t] obtain db1 where
    i: "incrementDownloadCount env db t tok = Inr db1"
    and s: "select_by_token db1 tok
       = Some (cur\<lparr>download_count := download_count cur + 1, last_accessed_at := Some t\<rparr>)"
    and w: "write_ok db1 = write_ok db" by blast
  from Cons.IH [OF s] w Cons.prems(2) obtain d where
    "downloads env db1 tok ts = Inr d"
    "select_by_token d tok
       = Some (cur\<lparr>download_count := download_count cur + 1, last_accessed_at := Some t\<rparr>
           \<lparr>download_count := download_count
               (cur\<lparr>download_count := download_count cur + 1, last_accessed_at := Some t\<rparr>)
                 + int (length ts),
            last_accessed_at := (if ts = [] then last_accessed_at
               (cur\<lparr>download_count := download_count cur + 1, last_accessed_at := Some t\<rparr>)
                                 else Some (last ts))\<rparr>)"
    by blast
  with i show ?case by (simp add: add.assoc add.commute)
qed

lemma downloads_InrD:
  assumes "downloads env db tok ts = Inr d"
  shows "ts = [] \<and> d = db
       \<or> getSupabaseAdminClient env = Inr () \<and> write_ok db
          \<and> (\<exists>cur. select_by_token db tok = Some cur)"
proof (cases ts)
  case Nil
  with assms show ?thesis by simp
next
  case (Cons t ts')
  with assms obtain db1 where "incrementDownloadCount env db t tok = Inr db1"
    by (auto split: sum.splits)
  from increment_InrD [OF this] show ?thesis by simp
qed

text \<open>
  After any number of counted downloads the token of a created link selects either nothing
  or the created row with the downloads counted.
\<close>

lemma downloads_created:
  assumes c: "createShareLink h env db nid now src opts = Some (Inr (row, db'))"
    and d: "downloads env db' (token row) ts = Inr d"
  shows "select_by_token d (token row) = None
       \<or> (\<exists>la. select_by_token d (token row)
              = Some (row\<lparr>download_count := int (length ts), last_accessed_at := la\<rparr>))"
proof -
  note f = createShareLink_token_facts [OF c]
  have m: "row \<in> set (rows db')" using f(4) by simp
  have z: "download_count row = 0" by (rule createShareLink_row_fields(4) [OF c])
  from downloads_InrD [OF d] show ?thesis
  proof
    assume e: "ts = [] \<and> d = db'"
    show ?thesis
    proof (cases "select_by_token db' (token row)")
      case None
      with e show ?thesis by simp
    next
      case (Some x)
      from select_member [OF Some m refl] have "x = row" .
      with Some e z have "select_by_token d (token row)
          = Some (row\<lparr>download_count := int (length ts),
                       last_accessed_at := last_accessed_at row\<rparr>)" by simp
      then show ?thesis by blast
    qed
  next
    assume "getSupabaseAdminClient env = Inr () \<and> write_ok db'
          \<and> (\<exists>cur. select_by_token db' (token row) = Some cur)"
    then obtain cur where k: "getSupabaseAdminClient env = Inr ()" and w: "write_ok db'"
      and s: "select_by_token db' (token row) = Some cur" by blast
    from select_member [OF s m refl] have "cur = row" .
    with downloads_returns [OF k s w, of ts] d z
    have "select_by_token d (token row)
          = Some (row\<lparr>download_count := int (length ts),
                       last_accessed_at := (if ts = [] then last_accessed_at row
                                            else Some (last ts))\<rparr>)" by simp
    then show ?thesis by blast
  qed
qed

text \<open>
  C10. \<open>createShareLink\<close> treats falsy option values as absent. It produces a link
  whenever the client can be made, the store accepts the insert, the expiry is a date and
  the entropy source yields a token that the lookup does not find; the link it returns is
  the row it appends to the store, with the file and the creator of the request, and with
  \<open>expires_at\<close> null for \<open>expiresIn\<close> absent or 0 (the creation time plus the TTL otherwise)
  and \<open>max_downloads\<close> null for \<open>maxDownloads\<close> absent or 0 (the number given otherwise).
  After any number of downloads counted by \<open>incrementDownloadCount\<close>, a link created with
  \<open>expiresIn = 0\<close> never fails \<open>validateShareLink\<close> with \<open>Link has expired\<close>, whatever the
  clock, and one created with \<open>maxDownloads = 0\<close> never fails with \<open>Download limit reached\<close>.
  On a store that answers reads and holds no token twice, any number of downloads of a link
  created with both options 0 and no password is counted, and validation succeeds after
  every one of them: the link permits unlimited downloads rather than zero.
\<close>

theorem createShareLink_falsy_options:
  "(getSupabaseAdminClient env = Inr () \<and> write_ok db
      \<and> (\<forall>ttl. expiresIn opts = Some ttl \<longrightarrow> \<bar>now + ttl\<bar> \<le> 8640000000000000)
      \<and> (\<exists>t \<in> set (draws src). select_by_token db t = None)
    \<longrightarrow> (\<exists>row db'. createShareLink h env db nid now src opts = Some (Inr (row, db'))))
   \<and> (\<forall>row db'. createShareLink h env db nid now src opts = Some (Inr (row, db')) \<longrightarrow>
         db' = db\<lparr>rows := rows db @ [row]\<rparr>
       \<and> file_path row = filePath opts \<and> file_name row = fileName opts
       \<and> file_size row = fileSize opts \<and> created_by row = createdBy opts
       \<and> download_count row = 0 \<and> is_active row
       \<and> expires_at row = (case expiresIn opts of None \<Rightarrow> None
                            | Some ttl \<Rightarrow> if ttl = 0 then None else Some (now + ttl))
       \<and> max_downloads row = (case maxDownloads opts of None \<Rightarrow> None
                               | Some m \<Rightarrow> if m = 0 then None else Some m)
       \<and> (\<forall>ts d now' pw. downloads env db' (token row) ts = Inr d \<longrightarrow>
             (expiresIn opts = Some 0 \<longrightarrow>
                validateShareLink v env d now' (token row) pw \<noteq> Inr (Invalid ''Link has expired''))
           \<and> (maxDownloads opts = Some 0 \<longrightarrow>
                validateShareLink v env d now' (token row) pw
                  \<noteq> Inr (Invalid ''Download limit reached'')))
       \<and> (\<forall>ts now' pw.
             read_ok db \<and> distinct (map token (rows db))
           \<and> expiresIn opts = Some 0 \<and> maxDownloads opts = Some 0
           \<and> \<not> truthy_string (password opts) \<longrightarrow>
             (\<exists>d link. downloads env db' (token row) ts = Inr d
                \<and> download_count link = int (length ts)
                \<and> expires_at link = None \<and> max_downloads link = None
                \<and> validateShareLink v env d now' (token row) pw = Inr (Valid link))))"
proof (intro conjI allI impI)
  assume a: "getSupabaseAdminClient env = Inr () \<and> write_ok db
      \<and> (\<forall>ttl. expiresIn opts = Some ttl \<longrightarrow> \<bar>now + ttl\<bar> \<le> 8640000000000000)
      \<and> (\<exists>t \<in> set (draws src). select_by_token db t = None)"
  then obtain t where "t \<in> set (draws src)" "select_by_token db t = None" by blast
  with a show "\<exists>row db'. createShareLink h env db nid now src opts = Some (Inr (row, db'))"
    by (intro createShareLink_returns) auto
next
  fix row db'
  assume c: "createShareLink h env db nid now src opts = Some (Inr (row, db'))"
  note f = createShareLink_token_facts [OF c] and r = createShareLink_row_fields [OF c]
  show "db' = db\<lparr>rows := rows db @ [row]\<rparr>" by (rule f(4))
  show "file_path row = filePath opts" by (rule r(6))
  show "file_name row = fileName opts" by (rule r(7))
  show "file_size row = fileSize opts" by (rule r(8))
  show "created_by row = createdBy opts" by (rule r(9))
  show "download_count row = 0" by (rule r(4))
  show "is_active row" by (rule r(5))
  show e: "expires_at row = (case expiresIn opts of None \<Rightarrow> None
                            | Some ttl \<Rightarrow> if ttl = 0 then None else Some (now + ttl))"
    using r(1) by (cases "expiresIn opts") auto
  show m: "max_downloads row = (case maxDownloads opts of None \<Rightarrow> None
                               | Some m \<Rightarrow> if m = 0 then None else Some m)"
    using r(2) by (cases "maxDownloads opts") auto
  {
    fix ts d now' pw
    assume d: "downloads env db' (token row) ts = Inr d"
    note g = getShareLink_configured [OF f(5)]
    {
      assume "expiresIn opts = Some 0"
      with e have "expires_at row = None" by simp
      with downloads_created [OF c d]
      show "validateShareLink v env d now' (token row) pw \<noteq> Inr (Invalid ''Link has expired'')"
        by (auto simp: validateShareLink_def g split: option.splits)
    }
    {
      assume "maxDownloads opts = Some 0"
      with m have "max_downloads row = None" by simp
      with downloads_created [OF c d]
      show "validateShareLink v env d now' (token row) pw
          \<noteq> Inr (Invalid ''Download limit reached'')"
        by (auto simp: validateShareLink_def g split: option.splits)
    }
  }
  {
    fix ts now' pw
    assume a: "read_ok db \<and> distinct (map token (rows db))
           \<and> expiresIn opts = Some 0 \<and> maxDownloads opts = Some 0
           \<and> \<not> truthy_string (password opts)"
    then have s: "select_by_token db' (token row) = Some row"
      using createShareLink_select [OF c] by simp
    have w: "write_ok db'" using f(4,6) by simp
    from downloads_returns [OF f(5) s w, of ts] obtain d where
      d: "downloads env db' (token row) ts = Inr d"
      and l: "select_by_token d (token row)
            = Some (row\<lparr>download_count := download_count row + int (length ts),
                         last_accessed_at := (if ts = [] then last_accessed_at row
                                              else Some (last ts))\<rparr>)"
      by blast
    let ?link = "row\<lparr>download_count := download_count row + int (length ts),
                      last_accessed_at := (if ts = [] then last_accessed_at row
                                           else Some (last ts))\<rparr>"
    from a e m r(3) have n: "expires_at row = None" "max_downloads row = None"
      "password_hash row = None" by simp_all
    have "validateShareLink v env d now' (token row) pw = Inr (Valid ?link)"
      using l n r(5) by (simp add: validateShareLink_def getShareLink_configured [OF f(5)])
    moreover have "download_count ?link = int (length ts)" using r(4) by simp
    moreover have "expires_at ?link = None" "max_downloads ?link = None" using n by simp_all
    ultimately show "\<exists>d link. downloads env db' (token row) ts = Inr d
                \<and> download_count link = int (length ts)
                \<and> expires_at link = None \<and> max_downloads link = None
                \<and> validateShareLink v env d now' (token row) pw = Inr (Valid link)"
      using d by blast
  }
qed

theorem createShareLink_falsy_options_witness:
  "\<exists>row db' d link.
      createShareLink id example_env (example_db [example_link]) ''8'' 5000 example_entropy
        (example_options\<lparr>expiresIn := Some 0, maxDownloads := Some 0\<rparr>) = Some (Inr (row, db'))
    \<and> rows db' = [example_link, row]
    \<and> expires_at row = None \<and> max_downloads row = None
    \<and> downloads example_env db' (token row) [6000, 7000, 8000] = Inr d
    \<and> download_count link = 3
    \<and> validateShareLink example_verify example_env d 9000 (token row) None = Inr (Valid link)
    \<and> validateShareLink example_verify example_env d 9000 (token row) None
        \<noteq> Inr (Invalid ''Link has expired'')
    \<and> validateShareLink example_verify example_env d 9000 (token row) None
        \<noteq> Inr (Invalid ''Download limit reached'')"
proof -
  let ?opts = "example_options\<lparr>expiresIn := Some 0, maxDownloads := Some 0\<rparr>"
  note T = createShareLink_falsy_options [of example_env "example_db [example_link]" ?opts 5000
      example_entropy id "''8''" example_verify]
  have dr: "draws example_entropy
      = [''00112233445566778899aabbccddeeff'', ''deadbeef0102030405060708090a0b0c'']"
    by code_simp
  have "select_by_token (example_db [example_link]) ''deadbeef0102030405060708090a0b0c'' = None"
    by (simp add: select_by_token_def example_db_def example_link_def)
  then have "\<exists>t \<in> set (draws example_entropy). select_by_token (example_db [example_link]) t = None"
    unfolding dr by simp
  moreover have "\<forall>ttl. expiresIn ?opts = Some ttl \<longrightarrow> \<bar>5000 + ttl\<bar> \<le> 8640000000000000"
    by simp
  ultimately obtain row db' where
    c: "createShareLink id example_env (example_db [example_link]) ''8'' 5000 example_entropy ?opts
          = Some (Inr (row, db'))"
    using T example_env_configured example_store(2) by blast
  have o: "expiresIn ?opts = Some 0" "maxDownloads ?opts = Some 0"
    "\<not> truthy_string (password ?opts)" by (simp_all add: example_options_def)
  from T c have s: "db' = (example_db [example_link])\<lparr>rows := rows (example_db [example_link]) @ [row]\<rparr>"
    and e: "expires_at row = (case expiresIn ?opts of None \<Rightarrow> None
                            | Some ttl \<Rightarrow> if ttl = 0 then None else Some (5000 + ttl))"
    and m: "max_downloads row = (case maxDownloads ?opts of None \<Rightarrow> None
                               | Some m \<Rightarrow> if m = 0 then None else Some m)"
    by blast+
  from T c o example_store(1,3) obtain d link where
    d: "downloads example_env db' (token row) [6000, 7000, 8000] = Inr d"
    and l: "download_count link = int (length [6000, 7000, 8000::int])"
    and v: "validateShareLink example_verify example_env d 9000 (token row) None = Inr (Valid link)"
    by blast
  from s have "rows db' = [example_link, row]" by (simp add: example_db_def)
  moreover from e m have "expires_at row = None" "max_downloads row = None" by simp_all
  moreover from l have "download_count link = 3" by simp
  ultimately show ?thesis using c d v by auto
qed

section \<open>Properties of remote paths\<close>

lemma split_slash_nonempty: "split_slash p \<noteq> []"
  by (induction p) (auto split: list.splits)

lemma split_slash_append:
  "split_slash (a @ CHR ''/'' # b) = split_slash a @ split_slash b"
proof (induction a)
  case Nil
  show ?case by simp
next
  case (Cons c a)
  show ?case
  proof (cases "split_slash a")
    case Nil
    with split_slash_nonempty show ?thesis by blast
  next
    case (Cons s ss)
    with Cons.IH show ?thesis by simp
  qed
qed

lemma split_slash_plain: "CHR ''/'' \<notin> set s \<Longrightarrow> split_slash s = [s]"
  by (induction s) auto

lemma split_slash_no_slash: "s \<in> set (split_slash p) \<Longrightarrow> CHR ''/'' \<notin> set s"
proof (induction p arbitrary: s)
  case Nil
  then show ?case by simp
next
  case (Cons c p)
  then show ?case
    by (cases "split_slash p") (auto split: if_splits)
qed

lemma split_join_slash:
  "ss \<noteq> [] \<Longrightarrow> \<forall>s \<in> set ss. CHR ''/'' \<notin> set s \<Longrightarrow> split_slash (join_slash ss) = ss"
proof (induction ss rule: join_slash.induct)
  case 1
  then show ?case by simp
next
  case (2 s)
  then show ?case by (simp add: split_slash_plain)
next
  case (3 s t ss)
  then show ?case by (simp add: split_slash_append split_slash_plain)
qed

lemma join_slash_append:
  "xs \<noteq> [] \<Longrightarrow> ys \<noteq> [] \<Longrightarrow> join_slash (xs @ ys) = join_slash xs @ CHR ''/'' # join_slash ys"
proof (induction xs rule: join_slash.induct)
  case 1
  then show ?case by simp
next
  case (2 s)
  then show ?case by (cases ys) auto
next
  case (3 s t ss)
  then show ?case by simp
qed

lemma normalizeString_skip:
  "s = [] \<or> s = ''.'' \<Longrightarrow> normalizeString a r (s # ss) = normalizeString a r ss"
  by auto

lemma normalizeString_keep:
  "s \<noteq> [] \<Longrightarrow> s \<noteq> ''.'' \<Longrightarrow> s \<noteq> ''..'' \<Longrightarrow>
     normalizeString a r (s # ss) = normalizeString a (r @ [s]) ss"
  by simp

lemma normalizeString_up:
  "normalizeString a r (''..'' # ss) =
     (if r \<noteq> [] \<and> last r \<noteq> ''..'' then normalizeString a (butlast r) ss
      else if a then normalizeString a (r @ [''..'']) ss
      else normalizeString a r ss)"
  by simp

lemmas normalizeString_cases = normalizeString_skip normalizeString_keep normalizeString_up

declare normalizeString.simps(2) [simp del]

lemma normalizeString_append:
  "normalizeString a r (xs @ ys) = normalizeString a (normalizeString a r xs) ys"
proof (induction xs arbitrary: r a)
  case Nil
  show ?case by simp
next
  case (Cons s xs)
  consider "s = [] \<or> s = ''.''" | "s = ''..''" | "s \<noteq> []" "s \<noteq> ''.''" "s \<noteq> ''..''"
    by blast
  then show ?case
  proof cases
    case 1
    then show ?thesis by (simp add: normalizeString_skip Cons.IH)
  next
    case 2
    then show ?thesis by (simp add: normalizeString_up Cons.IH)
  next
    case 3
    then show ?thesis by (simp add: normalizeString_keep Cons.IH)
  qed
qed

lemma normalizeString_no_dotdot:
  "''..'' \<notin> set ss \<Longrightarrow>
     normalizeString a r ss = r @ filter (\<lambda>s. s \<noteq> [] \<and> s \<noteq> ''.'') ss"
proof (induction ss arbitrary: r)
  case Nil
  show ?case by simp
next
  case (Cons s ss)
  then have n: "s \<noteq> ''..''" and t: "''..'' \<notin> set ss" by auto
  consider "s = [] \<or> s = ''.''" | "s \<noteq> []" "s \<noteq> ''.''" by blast
  then show ?case
  proof cases
    case 1
    then show ?thesis using Cons.IH [OF t] by (auto simp: normalizeString_skip)
  next
    case 2
    then show ?thesis using Cons.IH [OF t] n by (simp add: normalizeString_keep)
  qed
qed

lemma normalizeString_absolute_set:
  "s \<in> set (normalizeString False r ss) \<Longrightarrow>
     s \<in> set r \<or> (s \<in> set ss \<and> s \<noteq> ''..'' \<and> s \<noteq> [] \<and> s \<noteq> ''.'')"
proof (induction ss arbitrary: r)
  case Nil
  then show ?case by simp
next
  case (Cons t ss)
  consider "t = [] \<or> t = ''.''" | "t = ''..''" | "t \<noteq> []" "t \<noteq> ''.''" "t \<noteq> ''..''"
    by blast
  then show ?case
  proof cases
    case 1
    with Cons.prems have "s \<in> set (normalizeString False r ss)"
      by (simp add: normalizeString_skip)
    from Cons.IH [OF this] show ?thesis by auto
  next
    case 2
    show ?thesis
    proof (cases "r \<noteq> [] \<and> last r \<noteq> ''..''")
      case True
      with 2 Cons.prems have "s \<in> set (normalizeString False (butlast r) ss)"
        by (simp add: normalizeString_up)
      from Cons.IH [OF this] show ?thesis by (auto dest: in_set_butlastD)
    next
      case False
      with 2 Cons.prems have "s \<in> set (normalizeString False r ss)"
        by (auto simp: normalizeString_up)
      from Cons.IH [OF this] show ?thesis by auto
    qed
  next
    case 3
    with Cons.prems have "s \<in> set (normalizeString False (r @ [t]) ss)"
      by (simp add: normalizeString_keep)
    from Cons.IH [OF this] 3 show ?thesis by auto
  qed
qed

lemma isAbsolute_Cons [simp]: "isAbsolute (c # cs) = (c = CHR ''/'')"
  by (simp add: isAbsolute_def)

lemma isAbsolute_Nil [simp]: "\<not> isAbsolute []"
  by (simp add: isAbsolute_def)

lemma base_ok_shape:
  assumes "base_ok base"
  shows "base = CHR ''/'' # join_slash (normalizeString False [] (split_slash base))"
    and "normalizeString False [] (split_slash base) \<noteq> []"
    and "join_slash (normalizeString False [] (split_slash base)) \<noteq> []"
proof -
  let ?q = "join_slash (normalizeString False [] (split_slash base))"
  from assms have a: "isAbsolute base" and t: "\<not> trailingSeparator base"
    and n: "normalize base = base"
    by (simp_all add: base_ok_def)
  from a have ne: "base \<noteq> []" by auto
  have q: "?q \<noteq> []"
  proof
    assume "?q = []"
    with n a ne have "base = ''/''" by (simp add: normalize_def)
    with t show False by (simp add: trailingSeparator_def)
  qed
  with n a ne t show "base = CHR ''/'' # ?q" by (simp add: normalize_def Let_def)
  from q show "normalizeString False [] (split_slash base) \<noteq> []" by auto
  from q show "?q \<noteq> []" .
qed

lemma normalize_absolute:
  assumes "isAbsolute p" and "join_slash (normalizeString False [] (split_slash p)) \<noteq> []"
  shows "normalize p = CHR ''/'' # join_slash (normalizeString False [] (split_slash p))
           @ (if trailingSeparator p then ''/'' else [])"
proof -
  from assms(1) have "p \<noteq> []" by auto
  with assms show ?thesis by (simp add: normalize_def Let_def)
qed

lemma join_slash_eq_Nil: "join_slash (xs @ ys) = [] \<Longrightarrow> join_slash xs = []"
  using join_slash_append [of xs ys] by (cases "xs = []"; cases "ys = []") auto

lemma normalize_below_base:
  assumes b: "base_ok base" and d: "''..'' \<notin> set (split_slash rel)"
  shows "within_base base (normalize (base @ CHR ''/'' # rel))"
proof -
  define p where "p = base @ CHR ''/'' # rel"
  define bs where "bs = normalizeString False [] (split_slash base)"
  define rs where "rs = filter (\<lambda>s. s \<noteq> [] \<and> s \<noteq> ''.'') (split_slash rel)"
  define t where "t = (if trailingSeparator p then ''/'' else [])"
  have sh: "base = CHR ''/'' # join_slash bs" "bs \<noteq> []" "join_slash bs \<noteq> []"
    using base_ok_shape [OF b] by (simp_all add: bs_def)
  from b have a: "isAbsolute p" by (cases base) (simp_all add: base_ok_def p_def)
  have segs: "normalizeString False [] (split_slash p) = bs @ rs"
    unfolding p_def bs_def rs_def
    by (simp add: split_slash_append normalizeString_append normalizeString_no_dotdot [OF d])
  have "join_slash (bs @ rs) \<noteq> []" using sh(3) join_slash_eq_Nil by blast
  with normalize_absolute [OF a] segs
  have n: "normalize p = CHR ''/'' # join_slash (bs @ rs) @ t" by (simp add: t_def)
  show ?thesis
  proof (cases "rs = []")
    case True
    with n sh(1) have "normalize p = base @ t" by simp
    then show ?thesis by (auto simp: within_base_def p_def t_def)
  next
    case False
    with sh(2) have "join_slash (bs @ rs) = join_slash bs @ CHR ''/'' # join_slash rs"
      by (rule join_slash_append)
    with n have "normalize p = (CHR ''/'' # join_slash bs) @ ''/'' @ join_slash rs @ t" by simp
    with sh(1) have "normalize p = (base @ ''/'') @ (join_slash rs @ t)" by simp
    then have "prefix (base @ ''/'') (normalize p)" by (rule prefixI)
    then show ?thesis by (simp add: within_base_def p_def)
  qed
qed

lemma path_join_within_base:
  assumes b: "base_ok base" and d: "''..'' \<notin> set (split_slash rel)"
  shows "within_base base (path_join [base, rel])"
proof (cases "rel = []")
  case True
  with b show ?thesis by (auto simp: path_join_def base_ok_def within_base_def)
next
  case False
  from b have "base \<noteq> []" by (auto simp: base_ok_def)
  with False have "path_join [base, rel] = normalize (base @ CHR ''/'' # rel)"
    by (simp add: path_join_def)
  with normalize_below_base [OF b d] show ?thesis by simp
qed

text \<open>The segments of a normal form.\<close>

lemma split_slash_framed:
  assumes "\<forall>s \<in> set ss. CHR ''/'' \<notin> set s" and "''..'' \<notin> set ss"
    and that: "t = [] \<or> t = ''/''"
  shows "''..'' \<notin> set (split_slash (join_slash ss @ t))"
proof (cases "ss = []")
  case True
  with that show ?thesis by auto
next
  case False
  from that show ?thesis
  proof
    assume "t = []"
    with False assms(1,2) show ?thesis by (simp add: split_join_slash)
  next
    assume "t = ''/''"
    then have "split_slash (join_slash ss @ t) = split_slash (join_slash ss) @ split_slash []"
      using split_slash_append [of "join_slash ss" "[]"] by simp
    with False assms(1,2) show ?thesis by (simp add: split_join_slash)
  qed
qed

lemma normalize_no_dotdot:
  assumes "isAbsolute rel \<or> ''..'' \<notin> set (split_slash rel)"
  shows "''..'' \<notin> set (split_slash (normalize rel))"
proof (cases "rel = []")
  case True
  then show ?thesis by (simp add: normalize_def)
next
  case False
  let ?ss = "normalizeString (\<not> isAbsolute rel) [] (split_slash rel)"
  let ?t = "if trailingSeparator rel then ''/'' else []"
  have sl: "\<forall>s \<in> set ?ss. CHR ''/'' \<notin> set s" and dd: "''..'' \<notin> set ?ss"
  proof -
    show "''..'' \<notin> set ?ss"
    proof (cases "isAbsolute rel")
      case True
      then show ?thesis using normalizeString_absolute_set [of "''..''" "[]" "split_slash rel"]
        by auto
    next
      case False
      with assms have d: "''..'' \<notin> set (split_slash rel)" by simp
      then show ?thesis by (simp add: normalizeString_no_dotdot [OF d])
    qed
    show "\<forall>s \<in> set ?ss. CHR ''/'' \<notin> set s"
    proof (cases "isAbsolute rel")
      case True
      then show ?thesis
        using normalizeString_absolute_set [of _ "[]" "split_slash rel"] split_slash_no_slash
        by fastforce
    next
      case False
      with assms have d: "''..'' \<notin> set (split_slash rel)" by simp
      then show ?thesis
        using split_slash_no_slash by (auto simp: normalizeString_no_dotdot [OF d])
    qed
  qed
  have fr: "''..'' \<notin> set (split_slash (join_slash ?ss @ ?t))"
    by (rule split_slash_framed [OF sl dd]) simp
  show ?thesis
  proof (cases "join_slash ?ss = []")
    case True
    with False show ?thesis by (simp add: normalize_def Let_def)
  next
    case q: False
    show ?thesis
    proof (cases "isAbsolute rel")
      case True
      with q False have "normalize rel = CHR ''/'' # (join_slash ?ss @ ?t)"
        by (simp add: normalize_def Let_def)
      with fr show ?thesis by simp
    next
      case False
      with q \<open>rel \<noteq> []\<close> have "normalize rel = join_slash ?ss @ ?t"
        by (simp add: normalize_def Let_def)
      with fr show ?thesis by simp
    qed
  qed
qed

lemma getFullPath_within_base:
  assumes b: "base_ok base" and d: "''..'' \<notin> set (split_slash (normalize rel))"
  shows "within_base base (getFullPath base rel)"
proof (cases "isAbsolute (normalize rel)")
  case True
  then obtain t where n: "normalize rel = CHR ''/'' # t"
    by (cases "normalize rel") auto
  with d have "''..'' \<notin> set (split_slash t)" by simp
  from path_join_within_base [OF b this] True n show ?thesis
    by (simp add: getFullPath_def)
next
  case False
  with path_join_within_base [OF b d] show ?thesis
    by (simp add: getFullPath_def)
qed

text \<open>
  C5. \<open>getFullPath\<close> normalizes the relative path and strips a leading slash before it
  joins the path to the base root, and what it resolves stays within the base root for
  every path whose normal form has no \<^verbatim>\<open>..\<close> segment, as every path that begins with a
  slash has (\<open>getFullPath_within_base\<close>, \<open>normalize_no_dotdot\<close>). The normal form of a
  relative path keeps its leading \<^verbatim>\<open>..\<close> segments, and \<open>getFullPath\<close> joins them to the base
  root as they are: \<^verbatim>\<open>/../secret.wav\<close> stays below the base root and \<^verbatim>\<open>../secret.wav\<close>
  resolves to its parent directory. \<open>O2SwitchStorage\<close> joins the path to the base root
  with no step before, and both forms escape there.
\<close>

theorem resolved_path_escapes_base:
  "getFullPath default_base ''/../secret.wav'' = ''/home/faji2535/admin-files/secret.wav''
   \<and> within_base default_base (getFullPath default_base ''/../secret.wav'')
   \<and> getFullPath default_base ''../secret.wav'' = ''/home/faji2535/secret.wav''
   \<and> \<not> within_base default_base (getFullPath default_base ''../secret.wav'')
   \<and> getFullPath default_base ''demos/../../../etc/passwd'' = ''/home/etc/passwd''
   \<and> \<not> within_base default_base (getFullPath default_base ''demos/../../../etc/passwd'')
   \<and> adminFullPath default_base ''/../secret.wav'' = ''/home/faji2535/secret.wav''
   \<and> \<not> within_base default_base (adminFullPath default_base ''/../secret.wav'')
   \<and> adminFullPath default_base ''../../etc/passwd'' = ''/home/etc/passwd''
   \<and> \<not> within_base default_base (adminFullPath default_base ''../../etc/passwd'')"
  by code_simp

section \<open>Properties of the search\<close>







lemma plain_names_seg:
  "n \<noteq> [] \<Longrightarrow> CHR ''/'' \<notin> set n \<Longrightarrow> n \<noteq> ''.'' \<Longrightarrow> n \<noteq> ''..'' \<Longrightarrow> plain_seg n"
  by (simp add: plain_seg_def)









section \<open>Properties of connect\<close>

lemma o2switch_connects:
  "cs \<noteq> [] \<Longrightarrow> \<not> connected s \<Longrightarrow> connecting s = None \<Longrightarrow>
     o2switch_run s (map Connect cs)
       = s\<lparr>connecting := Some (hd cs), handshakes := handshakes s + 1,
            waiting := waiting s @ cs\<rparr>"
proof (induction cs arbitrary: s rule: rev_induct)
  case Nil
  then show ?case by simp
next
  case (snoc c cs)
  show ?case
  proof (cases "cs = []")
    case True
    with snoc.prems show ?thesis by (simp add: o2switch_run_def)
  next
    case False
    from snoc.IH [OF False snoc.prems(2,3)] False show ?thesis
      by (simp add: o2switch_run_def snoc.prems)
  qed
qed

text \<open>
  C2, as stated, fails on \<open>AdminStorageClient\<close>: two requests that call \<open>connect\<close> before
  the first handshake settles start two handshakes, where \<open>O2SwitchStorage\<close> starts one.
\<close>

theorem admin_connect_counterexample:
  "admin_handshakes (admin_run admin_init [Connect 1, Connect 2]) = 2
   \<and> handshakes (o2switch_run o2switch_init [Connect 1, Connect 2]) = 1"
  by (simp add: admin_run_def admin_init_def o2switch_run_def o2switch_init_def)

text \<open>
  C2, amended. On both clients a call of \<open>connect\<close> that finds the client connected
  returns at once and starts no handshake. On \<open>O2SwitchStorage\<close> a call that finds an
  attempt in flight joins the requests waiting for it and starts none; so any number of
  calls made on a fresh client before the handshake settles start exactly one handshake,
  and when it settles all of them return, or, when it fails, all of them get the error,
  with the client not connected and no attempt in flight. On \<open>AdminStorageClient\<close> a
  failed handshake leaves the client not connected and its caller gets the error.
\<close>

theorem connect_deduplicated:
  "(connected s \<longrightarrow>
      o2switch_step s (Connect c) = s\<lparr>finished := finished s @ [(c, Returned)]\<rparr>)
   \<and> (admin_connected a \<longrightarrow>
      admin_step a (Connect c) = a\<lparr>admin_finished := admin_finished a @ [(c, Returned)]\<rparr>)
   \<and> (\<not> connected s \<and> connecting s \<noteq> None \<longrightarrow>
      o2switch_step s (Connect c) = s\<lparr>waiting := waiting s @ [c]\<rparr>)
   \<and> (cs \<noteq> [] \<longrightarrow>
      handshakes (o2switch_run o2switch_init (map Connect cs)) = 1
    \<and> o2switch_run o2switch_init (map Connect cs @ [Handshake_done (hd cs) True])
        = \<lparr> connected = True, connecting = None, waiting = [], handshakes = 1,
            finished = map (\<lambda>c. (c, Returned)) cs \<rparr>
    \<and> o2switch_run o2switch_init (map Connect cs @ [Handshake_done (hd cs) False])
        = \<lparr> connected = False, connecting = None, waiting = [], handshakes = 1,
            finished = map (\<lambda>c. (c, Threw)) cs \<rparr>)
   \<and> (c \<in> set (pending a) \<longrightarrow>
      admin_step a (Handshake_done c False)
        = a\<lparr>admin_connected := False, pending := remove1 c (pending a),
             admin_finished := admin_finished a @ [(c, Threw)]\<rparr>)"
proof (intro conjI impI)
  assume "cs \<noteq> []"
  then have r: "o2switch_run o2switch_init (map Connect cs)
      = o2switch_init\<lparr>connecting := Some (hd cs), handshakes := 1, waiting := cs\<rparr>"
    using o2switch_connects [of cs o2switch_init] by (simp add: o2switch_init_def)
  then show "handshakes (o2switch_run o2switch_init (map Connect cs)) = 1" by simp
  have f: "\<And>e. o2switch_run o2switch_init (map Connect cs @ [e])
      = o2switch_step (o2switch_run o2switch_init (map Connect cs)) e"
    by (simp add: o2switch_run_def)
  show "o2switch_run o2switch_init (map Connect cs @ [Handshake_done (hd cs) True])
        = \<lparr> connected = True, connecting = None, waiting = [], handshakes = 1,
            finished = map (\<lambda>c. (c, Returned)) cs \<rparr>"
    unfolding f r by (simp add: o2switch_init_def)
  show "o2switch_run o2switch_init (map Connect cs @ [Handshake_done (hd cs) False])
        = \<lparr> connected = False, connecting = None, waiting = [], handshakes = 1,
            finished = map (\<lambda>c. (c, Threw)) cs \<rparr>"
    unfolding f r by (simp add: o2switch_init_def)
qed auto

theorem connect_deduplicated_witness:
  "o2switch_step (o2switch_run o2switch_init [Connect 1, Handshake_done 1 True]) (Connect 2)
     = \<lparr> connected = True, connecting = None, waiting = [], handshakes = 1,
         finished = [(1, Returned), (2, Returned)] \<rparr>
   \<and> admin_step (admin_run admin_init [Connect 1, Handshake_done 1 True]) (Connect 2)
     = \<lparr> admin_connected = True, pending = [], admin_handshakes = 1,
         admin_finished = [(1, Returned), (2, Returned)] \<rparr>
   \<and> o2switch_step (o2switch_run o2switch_init [Connect 1]) (Connect 2)
     = \<lparr> connected = False, connecting = Some 1, waiting = [1, 2], handshakes = 1,
         finished = [] \<rparr>
   \<and> handshakes (o2switch_run o2switch_init (map Connect [1, 2, 3])) = 1
   \<and> o2switch_run o2switch_init (map Connect [1, 2, 3] @ [Handshake_done 1 False])
     = \<lparr> connected = False, connecting = None, waiting = [], handshakes = 1,
         finished = [(1, Threw), (2, Threw), (3, Threw)] \<rparr>
   \<and> admin_step (admin_run admin_init [Connect 1]) (Handshake_done 1 False)
     = \<lparr> admin_connected = False, pending = [], admin_handshakes = 1,
         admin_finished = [(1, Threw)] \<rparr>"
proof -
  let ?s1 = "o2switch_run o2switch_init [Connect 1, Handshake_done 1 True]"
  let ?a1 = "admin_run admin_init [Connect 1, Handshake_done 1 True]"
  let ?s2 = "o2switch_run o2switch_init [Connect 1]"
  let ?a2 = "admin_run admin_init [Connect 1]"
  have h: "connected ?s1" "admin_connected ?a1" "\<not> connected ?s2 \<and> connecting ?s2 \<noteq> None"
    "[1, 2, 3::nat] \<noteq> []" "1 \<in> set (pending ?a2)"
    by (simp_all add: o2switch_run_def o2switch_init_def admin_run_def admin_init_def)
  from connect_deduplicated [of ?s1 2 ?a1 "[1, 2, 3]"] h
    connect_deduplicated [of ?s2 2 ?a2 "[1, 2, 3]"]
    connect_deduplicated [of ?s2 1 ?a2 "[1, 2, 3]"]
  show ?thesis
    by (simp add: o2switch_run_def o2switch_init_def admin_run_def admin_init_def)
qed

section \<open>Properties of the catalogue text store\<close>

lemma example_artist_read_back:
  "map_option parseArtistsFile (writeArtistsFile [example_artist])
     = Some (Inr (JArray [artist_value example_artist]))"
  by code_simp

lemma example_release_read_back:
  "map_option parseReleasesFile (writeReleasesFile [example_release])
     = Some (Inr (JArray [release_value example_release]))"
  by code_simp

lemma example_release_newline:
  "map_option parseReleasesFile
     (writeReleasesFile
        [example_release\<lparr>release_description := Some (''line one'' @ [CHR 0x0A] @ ''line two'')\<rparr>])
     = Some (Inl (Throws (SyntaxError ''Invalid or unexpected token'')))"
  by code_simp

text \<open>
  C3. Writing the catalogue and reading it back does not return what was written when
  the description of a release holds a newline: \<open>releaseToTS\<close> escapes the quotes of the
  description and not its newlines, the string literal it writes is broken across two
  lines, and \<open>parseReleasesFile\<close> throws a syntax error. \<open>artistToTS\<close> escapes both, and an
  artist whose description holds a quote and a newline is read back field for field.
\<close>

theorem release_newline_not_read_back:
  "map_option parseReleasesFile
     (writeReleasesFile
        [example_release\<lparr>release_description := Some (''line one'' @ [CHR 0x0A] @ ''line two'')\<rparr>])
     = Some (Inl (Throws (SyntaxError ''Invalid or unexpected token'')))
   \<and> map_option parseReleasesFile (writeReleasesFile [example_release])
       = Some (Inr (JArray [release_value example_release]))
   \<and> map_option parseArtistsFile (writeArtistsFile [example_artist])
       = Some (Inr (JArray [artist_value example_artist]))"
  using example_release_newline example_release_read_back example_artist_read_back
  by (intro conjI)

end
